theory Spec2Isabelle
  imports Main "HOL-Library.Multiset"
begin

section \<open>Values, cards and the object store\<close>

text \<open>
  Moves are typed \<^verbatim>\<open>any\<close> in \<^verbatim>\<open>BaseGame.playMove\<close>; the rules inspect them with
  \<^verbatim>\<open>===\<close>, \<^verbatim>\<open>typeof\<close> and property reads.  \<open>jsval\<close> holds the JavaScript values a move
  can be: the primitives and plain objects (an association list of own properties).
\<close>

datatype jsval =
    JUndefined
  | JNull
  | JBool bool
  | JNum int
  | JStr string
  | JObj "(string \<times> jsval) list"

text \<open>\<^verbatim>\<open>typeof v\<close>; note \<^verbatim>\<open>typeof null === "object"\<close>.\<close>

fun typeof :: "jsval \<Rightarrow> string" where
  "typeof JUndefined = ''undefined''"
| "typeof JNull = ''object''"
| "typeof (JBool b) = ''boolean''"
| "typeof (JNum n) = ''number''"
| "typeof (JStr s) = ''string''"
| "typeof (JObj fs) = ''object''"

datatype error = PlayerCountError | TypeError

text \<open>
  Property read \<^verbatim>\<open>v.k\<close>: throws a TypeError on \<^verbatim>\<open>null\<close> and \<^verbatim>\<open>undefined\<close>, yields
  \<^verbatim>\<open>undefined\<close> on the other primitives and on an object without the property.
\<close>

fun getProp :: "jsval \<Rightarrow> string \<Rightarrow> error + jsval" where
  "getProp JUndefined k = Inl TypeError"
| "getProp JNull k = Inl TypeError"
| "getProp (JObj fs) k = Inr (case map_of fs k of None \<Rightarrow> JUndefined | Some v \<Rightarrow> v)"
| "getProp v k = Inr JUndefined"

text \<open>
  \<^verbatim>\<open>Card\<close> (Card.ts).  A card is a mutable object (\<^verbatim>\<open>isFaceUp\<close> is assigned by
  \<^verbatim>\<open>WarRules.applyMove\<close>), and decks, hands and snapshots hold references to cards, so the
  cards live in a store: a reference is an index into the list of all card objects
  allocated so far.
\<close>

record Card =
  card_id :: string
  card_name :: string
  isFaceUp :: bool

type_synonym ref = nat
type_synonym heap = "Card list"

text \<open>The assignment \<^verbatim>\<open>card.isFaceUp = true\<close> to the card object at \<open>r\<close>.\<close>

definition setFaceUp :: "ref \<Rightarrow> heap \<Rightarrow> heap" where
  "setFaceUp r h = h[r := (h ! r)\<lparr>isFaceUp := True\<rparr>]"

section \<open>Deck (Deck.ts) and Hand\<close>

text \<open>
  A \<^verbatim>\<open>Deck\<close> or \<^verbatim>\<open>Hand\<close> object owns one array of cards.  Every constructor and
  \<^verbatim>\<open>getCards\<close> copies the array (\<^verbatim>\<open>[...cards]\<close>), so the arrays themselves are never
  shared and are modelled as list values; their elements stay references.
\<close>

definition swap :: "nat \<Rightarrow> nat \<Rightarrow> 'a list \<Rightarrow> 'a list" where
  "swap i j xs = xs[i := xs ! j, j := xs ! i]"

text \<open>
  \<^verbatim>\<open>Deck.shuffle\<close>: \<^verbatim>\<open>for (i = length - 1; i > 0; i--) { j = floor(random() * (i + 1)); swap }\<close>.
  \<open>rnd i\<close> is the random draw of the iteration with index \<open>i\<close>; as
  \<^verbatim>\<open>Math.random()\<close> lies in \<open>[0, 1)\<close> the index \<open>j\<close> lies in \<open>0..i\<close>, which \<open>mod\<close> enforces.
\<close>

fun shuffle_loop :: "(nat \<Rightarrow> nat) \<Rightarrow> nat \<Rightarrow> 'a list \<Rightarrow> 'a list" where
  "shuffle_loop rnd 0 xs = xs"
| "shuffle_loop rnd (Suc i) xs =
     shuffle_loop rnd i (swap (Suc i) (rnd (Suc i) mod (Suc i + 1)) xs)"

definition shuffle :: "(nat \<Rightarrow> nat) \<Rightarrow> 'a list \<Rightarrow> 'a list" where
  "shuffle rnd xs = shuffle_loop rnd (length xs - 1) xs"

text \<open>\<^verbatim>\<open>Deck.draw(count)\<close>: the drawn cards and the remaining deck.\<close>

definition draw :: "nat \<Rightarrow> 'a list \<Rightarrow> 'a list \<times> 'a list" where
  "draw n xs = (let actualCount = min n (length xs)
                    in (take actualCount xs, drop actualCount xs))"

definition addCards :: "'a list \<Rightarrow> 'a list \<Rightarrow> 'a list" where
  "addCards cs hand_cards = hand_cards @ cs"

text \<open>\<^verbatim>\<open>findIndex\<close> followed by \<^verbatim>\<open>splice(index, 1)\<close>.\<close>

fun remove_first :: "('a \<Rightarrow> bool) \<Rightarrow> 'a list \<Rightarrow> 'a option \<times> 'a list" where
  "remove_first P [] = (None, [])"
| "remove_first P (x # xs) =
     (if P x then (Some x, xs)
      else (case remove_first P xs of (r, ys) \<Rightarrow> (r, x # ys)))"

definition removeCard :: "heap \<Rightarrow> string \<Rightarrow> ref list \<Rightarrow> ref option \<times> ref list" where
  "removeCard h cardId hand_cards = remove_first (\<lambda>r. card_id (h ! r) = cardId) hand_cards"

text \<open>\<^verbatim>\<open>Hand.removeCards(cardIds)\<close>: the removed cards and the remaining hand.\<close>

definition removeCards :: "heap \<Rightarrow> string list \<Rightarrow> ref list \<Rightarrow> ref list \<times> ref list" where
  "removeCards h cardIds hand_cards =
     (filter (\<lambda>r. card_id (h ! r) \<in> set cardIds) hand_cards,
      filter (\<lambda>r. card_id (h ! r) \<notin> set cardIds) hand_cards)"

section \<open>Player (Player.ts) and GameState\<close>

record 'c Player =
  player_id :: string
  player_name :: string
  hand :: "'c list"
  score :: int

text \<open>
  \<^verbatim>\<open>customState\<close> is a \<^verbatim>\<open>Record<string, any>\<close>.  The two rule sets store seven keys in
  it, each with one TypeScript type; a field is \<open>None\<close> while the key is absent, and the
  inner \<open>option\<close> of \<open>roundWinner\<close> and \<open>lastAction\<close> is \<^verbatim>\<open>null\<close> or a string.  \<open>books\<close> maps
  a player id to the ranks of that player's books, in insertion order (JavaScript lists
  integer-like keys first; nothing modelled here reads the order of the player ids).
\<close>

record 'c CustomState =
  cardsInPlay :: "'c list option"
  warMode :: "bool option"
  roundWinner :: "string option option"
  books :: "(string \<times> string list) list option"
  lastAction :: "string option option"
  gameOver :: "bool option"
  anotherTurn :: "bool option"

definition emptyCustomState :: "'c CustomState" where
  "emptyCustomState = \<lparr>cardsInPlay = None, warMode = None, roundWinner = None,
     books = None, lastAction = None, gameOver = None, anotherTurn = None\<rparr>"

record 'c GameState =
  deck :: "'c list"
  discardPile :: "'c list"
  players :: "'c Player list"
  currentPlayerId :: string
  round :: int
  customState :: "'c CustomState"

text \<open>\<^verbatim>\<open>findIndex\<close> with \<open>None\<close> for \<open>-1\<close>.\<close>

fun findIndex :: "('a \<Rightarrow> bool) \<Rightarrow> 'a list \<Rightarrow> nat option" where
  "findIndex P [] = None"
| "findIndex P (x # xs) =
     (if P x then Some 0 else map_option Suc (findIndex P xs))"

text \<open>
  \<^verbatim>\<open>getPlayerById\<close> returns a reference to a \<^verbatim>\<open>Player\<close> object of \<^verbatim>\<open>players\<close>; the model
  names that object by its position in the list.
\<close>

definition getPlayerById :: "'c GameState \<Rightarrow> string \<Rightarrow> nat option" where
  "getPlayerById s playerId = findIndex (\<lambda>p. player_id p = playerId) (players s)"

definition addPlayer :: "'c Player \<Rightarrow> 'c GameState \<Rightarrow> 'c GameState" where
  "addPlayer p s =
     (let s1 = s\<lparr>players := players s @ [p]\<rparr>
      in if length (players s1) = 1 \<and> currentPlayerId s1 = []
         then s1\<lparr>currentPlayerId := player_id p\<rparr> else s1)"

text \<open>
  \<^verbatim>\<open>Player.clone\<close>: a new \<^verbatim>\<open>Player\<close> with a new \<^verbatim>\<open>Hand\<close> built from
  \<^verbatim>\<open>this.hand.getCards()\<close>: a new array holding the same card references.
\<close>

definition Player_clone :: "ref Player \<Rightarrow> ref Player" where
  "Player_clone p =
     \<lparr>player_id = player_id p, player_name = player_name p, hand = hand p, score = score p\<rparr>"

text \<open>
  \<^verbatim>\<open>JSON.parse(JSON.stringify(customState))\<close>: every card object reachable from
  \<^verbatim>\<open>customState\<close> is written out by value and parsed into a new plain object with the same
  \<^verbatim>\<open>id\<close>, \<^verbatim>\<open>name\<close> and \<^verbatim>\<open>isFaceUp\<close>; the copies are allocated at the end of the store.  The
  other values (booleans, strings, \<^verbatim>\<open>null\<close>, arrays of strings) are copied unchanged.
\<close>

definition json_copy_cards :: "heap \<Rightarrow> ref list \<Rightarrow> heap \<times> ref list" where
  "json_copy_cards h rs = (h @ map (\<lambda>r. h ! r) rs, [length h ..< length h + length rs])"

definition json_clone :: "heap \<Rightarrow> ref CustomState \<Rightarrow> heap \<times> ref CustomState" where
  "json_clone h cs =
     (case cardsInPlay cs of
        None \<Rightarrow> (h, cs)
      | Some rs \<Rightarrow> (case json_copy_cards h rs of (h', rs') \<Rightarrow> (h', cs\<lparr>cardsInPlay := Some rs'\<rparr>)))"

text \<open>
  \<^verbatim>\<open>GameState.clone\<close>: new \<^verbatim>\<open>Deck\<close> objects over \<^verbatim>\<open>getCards()\<close> (new arrays, same card
  references), cloned players, and the JSON copy of \<^verbatim>\<open>customState\<close>.
\<close>

definition GameState_clone :: "heap \<Rightarrow> ref GameState \<Rightarrow> heap \<times> ref GameState" where
  "GameState_clone h s =
     (case json_clone h (customState s) of (h', cs') \<Rightarrow>
        (h', \<lparr>deck = deck s, discardPile = discardPile s,
              players = map Player_clone (players s),
              currentPlayerId = currentPlayerId s, round = round s,
              customState = cs'\<rparr>))"

text \<open>
  The value of a state: every reference replaced by the card it points to.  Two states
  are value-equal in a store when their values are equal.
\<close>

definition deref_player :: "heap \<Rightarrow> ref Player \<Rightarrow> Card Player" where
  "deref_player h p =
     \<lparr>player_id = player_id p, player_name = player_name p,
      hand = map (\<lambda>r. h ! r) (hand p), score = score p\<rparr>"

definition deref_custom :: "heap \<Rightarrow> ref CustomState \<Rightarrow> Card CustomState" where
  "deref_custom h cs =
     \<lparr>cardsInPlay = map_option (map (\<lambda>r. h ! r)) (cardsInPlay cs),
      warMode = warMode cs, roundWinner = roundWinner cs, books = books cs,
      lastAction = lastAction cs, gameOver = gameOver cs, anotherTurn = anotherTurn cs\<rparr>"

definition deref :: "heap \<Rightarrow> ref GameState \<Rightarrow> Card GameState" where
  "deref h s =
     \<lparr>deck = map (\<lambda>r. h ! r) (deck s), discardPile = map (\<lambda>r. h ! r) (discardPile s),
      players = map (deref_player h) (players s),
      currentPlayerId = currentPlayerId s, round = round s,
      customState = deref_custom h (customState s)\<rparr>"

text \<open>
  The cards a state accounts for: those of the deck, the discard pile and the hands, and
  those the rules track in \<^verbatim>\<open>customState\<close> (\<^verbatim>\<open>cardsInPlay\<close>, the only collection of cards either
  rule set keeps there).  A state is well-formed in a store when none of these references
  dangles.
\<close>

definition inPlay :: "'c GameState \<Rightarrow> 'c list" where
  "inPlay s = (case cardsInPlay (customState s) of None \<Rightarrow> [] | Some cs \<Rightarrow> cs)"

definition heldCards :: "'c GameState \<Rightarrow> 'c list" where
  "heldCards s = deck s @ discardPile s @ concat (map hand (players s))"

definition allCards :: "'c GameState \<Rightarrow> 'c list" where
  "allCards s = heldCards s @ inPlay s"

definition wf_state :: "heap \<Rightarrow> ref GameState \<Rightarrow> bool" where
  "wf_state h s = list_all (\<lambda>r. r < length h) (allCards s)"

section \<open>War (WarRules.ts)\<close>

text \<open>
  The rules receive the acting \<^verbatim>\<open>Player\<close> object; it is named here by its position \<open>pi\<close>
  in \<^verbatim>\<open>gameState.players\<close>, the position \<^verbatim>\<open>getPlayerById\<close> found it at.  The \<^verbatim>\<open>Player\<close>
  objects of one game are distinct objects.

  A thrown exception is the result \<open>Inl\<close>.  The methods that change the state do so in
  place, so what they have changed before a throw stays changed: their \<open>Inl\<close> carries, with
  the exception, the store and the state as they are at the throw.
\<close>

definition rankMap :: "(string \<times> nat) list" where
  "rankMap = [(''2'', 2), (''3'', 3), (''4'', 4), (''5'', 5), (''6'', 6), (''7'', 7),
     (''8'', 8), (''9'', 9), (''10'', 10), (''J'', 11), (''Q'', 12), (''K'', 13), (''A'', 14)]"

text \<open>\<^verbatim>\<open>card.id.split("-")[0]\<close>: the id up to its first \<^verbatim>\<open>-\<close>.\<close>

definition rankOf :: "Card \<Rightarrow> string" where
  "rankOf c = takeWhile (\<lambda>x. x \<noteq> CHR ''-'') (card_id c)"

text \<open>
  \<^verbatim>\<open>rankMap[rank] || 0\<close>, read on the keys the table itself defines (card ids follow the
  convention \<^verbatim>\<open><rank>-<suit>\<close>; a prefix naming a member of \<^verbatim>\<open>Object.prototype\<close> is not an
  id any deck of the repository produces).
\<close>

definition WarRules_getCardRank :: "Card \<Rightarrow> nat" where
  "WarRules_getCardRank c = (case map_of rankMap (rankOf c) of None \<Rightarrow> 0 | Some n \<Rightarrow> n)"

text \<open>
  \<^verbatim>\<open>const c = p.hand.getCards()[0]; p.hand.removeCard(c.id);\<close> for the player at position
  \<open>i\<close>: reading \<^verbatim>\<open>c.id\<close> throws when the hand is empty.
\<close>

definition takeFirstCard :: "heap \<Rightarrow> ref GameState \<Rightarrow> nat \<Rightarrow> error + ref \<times> ref GameState" where
  "takeFirstCard h s i =
     (case hand (players s ! i) of
        [] \<Rightarrow> Inl TypeError
      | c # _ \<Rightarrow>
          Inr (c, s\<lparr>players := (players s)
                 [i := (players s ! i)
                    \<lparr>hand := snd (removeCard h (card_id (h ! c)) (hand (players s ! i)))\<rparr>]\<rparr>))"

definition WarRules_initializeGame ::
    "(nat \<Rightarrow> nat) \<Rightarrow> heap \<Rightarrow> ref GameState
       \<Rightarrow> error \<times> heap \<times> ref GameState + heap \<times> ref GameState" where
  "WarRules_initializeGame rnd h s =
     (if length (players s) \<noteq> 2 then Inl (PlayerCountError, h, s)
      else
        let d0 = shuffle rnd (deck s);
            totalCards = length d0;
            cardsPerPlayer = totalCards div 2;
            player1 = players s ! 0;
            player2 = players s ! 1;
            (c1, d1) = draw cardsPerPlayer d0;
            (c2, d2) = draw cardsPerPlayer d1
        in Inr (h, s\<lparr>deck := d2,
                      players := [player1\<lparr>hand := addCards c1 (hand player1)\<rparr>,
                                  player2\<lparr>hand := addCards c2 (hand player2)\<rparr>],
                      currentPlayerId := player_id player1,
                      customState := (customState s)
                        \<lparr>cardsInPlay := Some [], warMode := Some False,
                         roundWinner := Some None\<rparr>\<rparr>))"

definition WarRules_validateMove :: "heap \<Rightarrow> ref GameState \<Rightarrow> nat \<Rightarrow> jsval \<Rightarrow> error + bool" where
  "WarRules_validateMove h s pi move =
     Inr (move = JStr ''play'' \<and> length (hand (players s ! pi)) > 0)"

definition setScoreToHandSize :: "nat \<Rightarrow> ref GameState \<Rightarrow> ref GameState" where
  "setScoreToHandSize i s =
     s\<lparr>players := (players s)
         [i := (players s ! i)\<lparr>score := int (length (hand (players s ! i)))\<rparr>]\<rparr>"

definition handleRoundWin ::
    "ref GameState \<Rightarrow> nat \<Rightarrow> ref list \<Rightarrow> error \<times> ref GameState + ref GameState" where
  "handleRoundWin s wi cards =
     (let winner = players s ! wi;
          s1 = s\<lparr>players := (players s)[wi := winner\<lparr>hand := addCards cards (hand winner)\<rparr>]\<rparr>;
          s2 = s1\<lparr>customState := (customState s1)
                  \<lparr>cardsInPlay := Some [], warMode := Some False,
                   roundWinner := Some (Some (player_id winner))\<rparr>\<rparr>;
          s3 = setScoreToHandSize wi s2
      in case findIndex (\<lambda>p. player_id p \<noteq> player_id winner) (players s3) of
           None \<Rightarrow> Inl (TypeError, s3)
         | Some oi \<Rightarrow> Inr (setScoreToHandSize oi s3))"

text \<open>The loop \<^verbatim>\<open>for (let i = 0; i < 3; i++)\<close> of the war branch, with \<open>n\<close> rounds to go.\<close>

fun commitWarCards ::
    "nat \<Rightarrow> heap \<Rightarrow> ref GameState \<Rightarrow> nat \<Rightarrow> nat \<Rightarrow> ref list
       \<Rightarrow> error \<times> ref GameState + ref GameState \<times> ref list" where
  "commitWarCards 0 h s pi oi cip = Inr (s, cip)"
| "commitWarCards (Suc n) h s pi oi cip =
     (case takeFirstCard h s pi of
        Inl e \<Rightarrow> Inl (e, s)
      | Inr (playerWarCard, s1) \<Rightarrow>
          (case takeFirstCard h s1 oi of
             Inl e \<Rightarrow> Inl (e, s1)
           | Inr (otherPlayerWarCard, s2) \<Rightarrow>
               commitWarCards n h s2 pi oi (cip @ [playerWarCard, otherPlayerWarCard])))"

definition withHeap ::
    "heap \<Rightarrow> error \<times> ref GameState + ref GameState
       \<Rightarrow> error \<times> heap \<times> ref GameState + heap \<times> ref GameState" where
  "withHeap h r = (case r of Inl (e, s) \<Rightarrow> Inl (e, h, s) | Inr s \<Rightarrow> Inr (h, s))"

text \<open>
  \<^verbatim>\<open>applyMove\<close>.  Up to the comparison of the ranks it can throw at three places: where no
  player has another id than the acting one (nothing is changed yet), on the first card
  of the acting player's empty hand (nothing is changed yet), and on the hand of the other
  player or its first card, when the acting player's card has already left the hand.
  \<^verbatim>\<open>getPlayerById(otherPlayerId)\<close> looks up the id \<^verbatim>\<open>find\<close> has just read from a player of the
  list; its result is first used for \<^verbatim>\<open>otherPlayer.hand\<close>.
\<close>

definition WarRules_applyMove ::
    "heap \<Rightarrow> ref GameState \<Rightarrow> nat \<Rightarrow> jsval
       \<Rightarrow> error \<times> heap \<times> ref GameState + heap \<times> ref GameState" where
  "WarRules_applyMove h s pi move =
     (if move \<noteq> JStr ''play'' then Inr (h, s)
      else
        let cip0 = inPlay s in
        case findIndex (\<lambda>p. player_id p \<noteq> player_id (players s ! pi)) (players s) of
          None \<Rightarrow> Inl (TypeError, h, s)
        | Some fi \<Rightarrow>
        (case takeFirstCard h s pi of
          Inl e \<Rightarrow> Inl (e, h, s)
        | Inr (playerCard, s1) \<Rightarrow>
        (case getPlayerById s (player_id (players s ! fi)) of
          None \<Rightarrow> Inl (TypeError, h, s1)
        | Some oi \<Rightarrow>
        (case takeFirstCard h s1 oi of
          Inl e \<Rightarrow> Inl (e, h, s1)
        | Inr (otherPlayerCard, s2) \<Rightarrow>
            let h1 = setFaceUp playerCard h;
                h2 = setFaceUp otherPlayerCard h1;
                cip1 = cip0 @ [playerCard, otherPlayerCard];
                playerRank = WarRules_getCardRank (h2 ! playerCard);
                otherPlayerRank = WarRules_getCardRank (h2 ! otherPlayerCard)
            in
              if playerRank > otherPlayerRank then withHeap h2 (handleRoundWin s2 pi cip1)
              else if otherPlayerRank > playerRank then withHeap h2 (handleRoundWin s2 oi cip1)
              else
                let s3 = s2\<lparr>customState := (customState s2)
                             \<lparr>warMode := Some True, cardsInPlay := Some cip1\<rparr>\<rparr>
                in
                  if length (hand (players s3 ! pi)) < 4 \<or> length (hand (players s3 ! oi)) < 4
                  then
                    (if length (hand (players s3 ! pi)) > length (hand (players s3 ! oi))
                     then withHeap h2 (handleRoundWin s3 pi cip1)
                     else withHeap h2 (handleRoundWin s3 oi cip1))
                  else
                    (case commitWarCards 3 h2 s3 pi oi cip1 of
                       Inl (e, s4) \<Rightarrow> Inl (e, h2, s4)
                     | Inr (s4, cip2) \<Rightarrow>
                         Inr (h2, s4\<lparr>customState := (customState s4)
                                      \<lparr>cardsInPlay := Some cip2\<rparr>\<rparr>))))))"

definition WarRules_isGameOver :: "heap \<Rightarrow> ref GameState \<Rightarrow> bool" where
  "WarRules_isGameOver h s = list_ex (\<lambda>p. length (hand p) = 0) (players s)"

definition WarRules_getCurrentPlayerId :: "ref GameState \<Rightarrow> string" where
  "WarRules_getCurrentPlayerId s = currentPlayerId s"

definition WarRules_getNextPlayerId :: "ref GameState \<Rightarrow> error + string" where
  "WarRules_getNextPlayerId s =
     (case find (\<lambda>p. player_id p \<noteq> currentPlayerId s) (players s) of
        None \<Rightarrow> Inl TypeError
      | Some p \<Rightarrow> Inr (player_id p))"

definition WarRules_nextTurn :: "ref GameState \<Rightarrow> error \<times> ref GameState + ref GameState" where
  "WarRules_nextTurn s =
     (case WarRules_getNextPlayerId s of
        Inl e \<Rightarrow> Inl (e, s)
      | Inr n \<Rightarrow> Inr (s\<lparr>currentPlayerId := n\<rparr>))"

section \<open>Go Fish (GoFishRules.ts, CardUtils.ts)\<close>

text \<open>\<^verbatim>\<open>CardUtils.dealCards\<close>: the inner loop over the players, then both dealing modes.\<close>

fun dealRound :: "'a list \<Rightarrow> 'a Player list \<Rightarrow> 'a list \<times> 'a Player list" where
  "dealRound d [] = (d, [])"
| "dealRound d (p # ps) =
     (case draw 1 d of (drawn, d1) \<Rightarrow>
        (case dealRound d1 ps of (d2, ps') \<Rightarrow>
           (d2, (if length drawn > 0 then p\<lparr>hand := addCards drawn (hand p)\<rparr> else p) # ps')))"

fun dealOneAtATime :: "nat \<Rightarrow> 'a list \<Rightarrow> 'a Player list \<Rightarrow> 'a list \<times> 'a Player list" where
  "dealOneAtATime 0 d ps = (d, ps)"
| "dealOneAtATime (Suc n) d ps = (case dealRound d ps of (d1, ps1) \<Rightarrow> dealOneAtATime n d1 ps1)"

fun dealAllAtOnce :: "nat \<Rightarrow> 'a list \<Rightarrow> 'a Player list \<Rightarrow> 'a list \<times> 'a Player list" where
  "dealAllAtOnce n d [] = (d, [])"
| "dealAllAtOnce n d (p # ps) =
     (case draw n d of (cs, d1) \<Rightarrow>
        (case dealAllAtOnce n d1 ps of (d2, ps') \<Rightarrow>
           (d2, p\<lparr>hand := addCards cs (hand p)\<rparr> # ps')))"

definition dealCards ::
    "'a list \<Rightarrow> 'a Player list \<Rightarrow> nat \<Rightarrow> bool \<Rightarrow> 'a list \<times> 'a Player list" where
  "dealCards d ps cardsPerPlayer oneAtATime =
     (if oneAtATime then dealOneAtATime cardsPerPlayer d ps
      else dealAllAtOnce cardsPerPlayer d ps)"

text \<open>
  \<^verbatim>\<open>CardUtils.groupCardsByRank\<close>: an object from rank to the cards of that rank, built in
  the order of the hand.  \<^verbatim>\<open>Object.entries\<close> then lists the keys that are array indices
  (canonical decimal numerals below \<open>2^32 - 1\<close>) in ascending order, and after them the
  other keys in insertion order.
\<close>

fun groupInsert :: "string \<Rightarrow> 'a \<Rightarrow> (string \<times> 'a list) list \<Rightarrow> (string \<times> 'a list) list" where
  "groupInsert k v [] = [(k, [v])]"
| "groupInsert k v ((k', vs) # rest) =
     (if k = k' then (k', vs @ [v]) # rest else (k', vs) # groupInsert k v rest)"

definition groupCardsByRank :: "heap \<Rightarrow> ref list \<Rightarrow> (string \<times> ref list) list" where
  "groupCardsByRank h cs = foldl (\<lambda>result c. groupInsert (rankOf (h ! c)) c result) [] cs"

definition digitValue :: "char \<Rightarrow> nat" where
  "digitValue c = of_char c - 48"

definition isDigit :: "char \<Rightarrow> bool" where
  "isDigit c = (48 \<le> (of_char c :: nat) \<and> (of_char c :: nat) \<le> 57)"

definition decimalValue :: "string \<Rightarrow> nat" where
  "decimalValue k = foldl (\<lambda>a c. 10 * a + digitValue c) 0 k"

definition isIndexKey :: "string \<Rightarrow> bool" where
  "isIndexKey k =
     (k \<noteq> [] \<and> list_all isDigit k \<and> (k = ''0'' \<or> hd k \<noteq> CHR ''0'')
      \<and> (length k < 10 \<or> decimalValue k < 4294967295))"

definition objectEntries :: "(string \<times> 'a) list \<Rightarrow> (string \<times> 'a) list" where
  "objectEntries kvs =
     sort_key (\<lambda>kv. decimalValue (fst kv)) (filter (\<lambda>kv. isIndexKey (fst kv)) kvs)
       @ filter (\<lambda>kv. \<not> isIndexKey (fst kv)) kvs"

text \<open>String conversion inside the template literals of \<^verbatim>\<open>applyMove\<close>.\<close>

fun showNat :: "nat \<Rightarrow> string" where
  "showNat n =
     (if n < 10 then [''0123456789'' ! n]
      else showNat (n div 10) @ [''0123456789'' ! (n mod 10)])"

declare showNat.simps [simp del]

fun toString :: "jsval \<Rightarrow> string" where
  "toString JUndefined = ''undefined''"
| "toString JNull = ''null''"
| "toString (JBool b) = (if b then ''true'' else ''false'')"
| "toString (JNum n) = (if n < 0 then CHR ''-'' # showNat (nat (- n)) else showNat (nat n))"
| "toString (JStr s) = s"
| "toString (JObj fs) = ''[object Object]''"

definition GoFishRules_initializeGame ::
    "(nat \<Rightarrow> nat) \<Rightarrow> heap \<Rightarrow> ref GameState
       \<Rightarrow> error \<times> heap \<times> ref GameState + heap \<times> ref GameState" where
  "GoFishRules_initializeGame rnd h s =
     (if length (players s) < 2 then Inl (PlayerCountError, h, s)
      else
        let d0 = shuffle rnd (deck s);
            cardsPerPlayer = (if length (players s) > 3 then 5 else 7)
        in case dealCards d0 (players s) cardsPerPlayer True of (d1, ps) \<Rightarrow>
             Inr (h, s\<lparr>deck := d1, players := ps,
                      currentPlayerId := player_id (ps ! 0),
                      customState := (customState s)
                        \<lparr>books := Some [], lastAction := Some None,
                         gameOver := Some False\<rparr>\<rparr>))"

text \<open>
  \<^verbatim>\<open>validateMove\<close>.  After the two \<^verbatim>\<open>typeof ... !== "string"\<close> tests both properties are
  strings, so the last alternative of the \<open>case\<close> is never taken.
\<close>

definition GoFishRules_validateMove :: "heap \<Rightarrow> ref GameState \<Rightarrow> nat \<Rightarrow> jsval \<Rightarrow> error + bool" where
  "GoFishRules_validateMove h s pi move =
     (if typeof move \<noteq> ''object'' then Inr False
      else case getProp move ''targetPlayerId'' of
        Inl e \<Rightarrow> Inl e
      | Inr t \<Rightarrow>
          if typeof t \<noteq> ''string'' then Inr False
          else (case getProp move ''rank'' of
            Inl e \<Rightarrow> Inl e
          | Inr r \<Rightarrow>
              if typeof r \<noteq> ''string'' then Inr False
              else (case (t, r) of
                (JStr targetPlayerId, JStr rank) \<Rightarrow>
                  if targetPlayerId = player_id (players s ! pi) then Inr False
                  else if getPlayerById s targetPlayerId = None then Inr False
                  else Inr (list_ex (\<lambda>c. rankOf (h ! c) = rank) (hand (players s ! pi)))
              | _ \<Rightarrow> Inr False)))"

definition setHand :: "nat \<Rightarrow> 'c list \<Rightarrow> 'c GameState \<Rightarrow> 'c GameState" where
  "setHand i cs s = s\<lparr>players := (players s)[i := (players s ! i)\<lparr>hand := cs\<rparr>]\<rparr>"

definition booksOf :: "'c GameState \<Rightarrow> (string \<times> string list) list" where
  "booksOf s = (case books (customState s) of None \<Rightarrow> [] | Some b \<Rightarrow> b)"

text \<open>\<^verbatim>\<open>books[k].push(rank)\<close> on an object that has the key \<open>k\<close>.\<close>

definition pushBook :: "string \<Rightarrow> string \<Rightarrow> (string \<times> string list) list \<Rightarrow> (string \<times> string list) list" where
  "pushBook k rank b = map (\<lambda>(k', rs). if k' = k then (k', rs @ [rank]) else (k', rs)) b"

definition bookCount :: "string \<Rightarrow> (string \<times> string list) list \<Rightarrow> nat" where
  "bookCount k b = (case map_of b k of None \<Rightarrow> 0 | Some rs \<Rightarrow> length rs)"

text \<open>One iteration of the loop over \<^verbatim>\<open>Object.entries(cardsByRank)\<close> in \<^verbatim>\<open>checkForBooks\<close>.\<close>

definition bookStep ::
    "heap \<Rightarrow> nat \<Rightarrow> ref GameState \<times> (string \<times> string list) list \<Rightarrow> string \<times> ref list
       \<Rightarrow> ref GameState \<times> (string \<times> string list) list" where
  "bookStep h pi sb entry =
     (case sb of (s, b) \<Rightarrow> (case entry of (rank, cs) \<Rightarrow>
        if length cs = 4 then
          let s1 = setHand pi
                     (snd (removeCards h (map (\<lambda>c. card_id (h ! c)) cs) (hand (players s ! pi)))) s;
              b1 = pushBook (player_id (players s ! pi)) rank b;
              s2 = s1\<lparr>players := (players s1)
                       [pi := (players s1 ! pi)
                          \<lparr>score := int (bookCount (player_id (players s ! pi)) b1)\<rparr>]\<rparr>
          in (s2, b1)
        else (s, b)))"

definition checkForBooks :: "heap \<Rightarrow> ref GameState \<Rightarrow> nat \<Rightarrow> ref GameState" where
  "checkForBooks h s pi =
     (let cardsByRank = groupCardsByRank h (hand (players s ! pi));
          b0 = booksOf s;
          b1 = (if map_of b0 (player_id (players s ! pi)) = None
                then b0 @ [(player_id (players s ! pi), [])] else b0)
      in case foldl (bookStep h pi) (s, b1) (objectEntries cardsByRank) of
           (s', b') \<Rightarrow> s'\<lparr>customState := (customState s')\<lparr>books := Some b'\<rparr>\<rparr>)"

definition GoFishRules_isGameOver :: "heap \<Rightarrow> ref GameState \<Rightarrow> bool" where
  "GoFishRules_isGameOver h s =
     (let totalBooks = sum_list (map (\<lambda>kv. length (snd kv)) (booksOf s)) in
      if totalBooks = 13 then True
      else if deck s = [] then
        (if \<not> list_ex (\<lambda>p. length (hand p) > 0) (players s) then True
         else \<not> list_ex (\<lambda>p. length (hand p) \<noteq> 0 \<and>
                  list_ex (\<lambda>rank.
                    list_ex (\<lambda>otherPlayer.
                      player_id otherPlayer \<noteq> player_id p \<and> length (hand otherPlayer) \<noteq> 0 \<and>
                      list_ex (\<lambda>c. rankOf (h ! c) = rank) (hand otherPlayer)) (players s))
                    (map fst (groupCardsByRank h (hand p)))) (players s))
      else False)"

text \<open>\<^verbatim>\<open>getPlayerById(v)\<close> for a value \<open>v\<close>: \<^verbatim>\<open>player.id === v\<close> holds for a string only.\<close>

definition getPlayerByValue :: "'c GameState \<Rightarrow> jsval \<Rightarrow> nat option" where
  "getPlayerByValue s v = (case v of JStr playerId \<Rightarrow> getPlayerById s playerId | _ \<Rightarrow> None)"

definition setAnotherTurn :: "bool \<Rightarrow> 'c GameState \<Rightarrow> 'c GameState" where
  "setAnotherTurn b s = s\<lparr>customState := (customState s)\<lparr>anotherTurn := Some b\<rparr>\<rparr>"

text \<open>
  The end of \<^verbatim>\<open>applyMove\<close>, common to its three branches: \<^verbatim>\<open>lastAction\<close> is set to the
  message of the branch, and \<^verbatim>\<open>gameOver\<close> is set when the game is over.
\<close>

definition recordAction :: "heap \<Rightarrow> string \<Rightarrow> ref GameState \<Rightarrow> ref GameState" where
  "recordAction h action s =
     (let s1 = s\<lparr>customState := (customState s)\<lparr>lastAction := Some (Some action)\<rparr>\<rparr>
      in if GoFishRules_isGameOver h s1
         then s1\<lparr>customState := (customState s1)\<lparr>gameOver := Some True\<rparr>\<rparr>
         else s1)"

definition GoFishRules_applyMove ::
    "heap \<Rightarrow> ref GameState \<Rightarrow> nat \<Rightarrow> jsval
       \<Rightarrow> error \<times> heap \<times> ref GameState + heap \<times> ref GameState" where
  "GoFishRules_applyMove h s pi move =
     (case getProp move ''targetPlayerId'' of
        Inl e \<Rightarrow> Inl (e, h, s)
      | Inr targetPlayerId \<Rightarrow>
     (case getProp move ''rank'' of
        Inl e \<Rightarrow> Inl (e, h, s)
      | Inr rank \<Rightarrow>
     (case getPlayerByValue s targetPlayerId of
        None \<Rightarrow> Inl (TypeError, h, s)
      | Some ti \<Rightarrow>
          let player = players s ! pi;
              targetPlayer = players s ! ti;
              targetCards = filter (\<lambda>c. JStr (rankOf (h ! c)) = rank) (hand targetPlayer);
              asked = player_name player @ '' asked '' @ player_name targetPlayer
                        @ '' for '' @ toString rank
          in
            if length targetCards > 0 then
              (case removeCards h (map (\<lambda>c. card_id (h ! c)) targetCards) (hand targetPlayer)
               of (removedCards, rest) \<Rightarrow>
                 let s1 = setHand ti rest s;
                     s2 = setHand pi (addCards removedCards (hand (players s1 ! pi))) s1
                 in Inr (h, recordAction h
                       (asked @ ''s and got '' @ showNat (length targetCards) @ '' card(s)'')
                       (checkForBooks h s2 pi)))
            else if deck s \<noteq> [] then
              (case draw 1 (deck s) of (drawn, d1) \<Rightarrow>
                 let drawnCard = drawn ! 0;
                     s1 = s\<lparr>deck := d1\<rparr>;
                     s2 = setHand pi (addCards [drawnCard] (hand (players s1 ! pi))) s1;
                     told = asked @ ''s and was told to Go Fish!''
                 in if JStr (rankOf (h ! drawnCard)) = rank
                    then Inr (h, recordAction h
                           (told @ '' '' @ player_name player @ '' drew the ''
                              @ card_name (h ! drawnCard) @ '' and gets another turn!'')
                           (checkForBooks h (setAnotherTurn True s2) pi))
                    else Inr (h, recordAction h
                           (told @ '' '' @ player_name player @ '' drew a card.'')
                           (checkForBooks h (setAnotherTurn False s2) pi)))
            else Inr (h, recordAction h
                   (asked @ ''s and was told to Go Fish! The deck is empty.'')
                   (setAnotherTurn False s)))))"

definition GoFishRules_getCurrentPlayerId :: "ref GameState \<Rightarrow> string" where
  "GoFishRules_getCurrentPlayerId s = currentPlayerId s"

text \<open>
  \<^verbatim>\<open>getNextPlayerId\<close>: \<^verbatim>\<open>findIndex\<close> yields \<open>-1\<close> when no player has the current id, and
  then \<open>nextIndex\<close> is \<open>0\<close>; with no players at all \<^verbatim>\<open>players[NaN].id\<close> throws.
\<close>

definition GoFishRules_getNextPlayerId :: "ref GameState \<Rightarrow> error + string" where
  "GoFishRules_getNextPlayerId s =
     (if anotherTurn (customState s) = Some True then Inr (currentPlayerId s)
      else if players s = [] then Inl TypeError
      else
        let currentIndex = (case findIndex (\<lambda>p. player_id p = currentPlayerId s) (players s) of
                              None \<Rightarrow> - 1 | Some i \<Rightarrow> int i);
            nextIndex = (currentIndex + 1) mod int (length (players s))
        in Inr (player_id (players s ! nat nextIndex)))"

definition GoFishRules_nextTurn :: "ref GameState \<Rightarrow> error \<times> ref GameState + ref GameState" where
  "GoFishRules_nextTurn s =
     (case GoFishRules_getNextPlayerId s of
        Inl e \<Rightarrow> Inl (e, s)
      | Inr n \<Rightarrow> Inr (setAnotherTurn False (s\<lparr>currentPlayerId := n\<rparr>)))"

section \<open>The rules contract (GameRules.ts) and the engine (BaseGame)\<close>

text \<open>
  \<^verbatim>\<open>IGameRules\<close> as a record of functions.  \<^verbatim>\<open>getWinners\<close> is left out: the engine passes
  its result to the output adapter only, and the calls of the output adapter
  (\<^verbatim>\<open>renderGameState\<close>, \<^verbatim>\<open>showError\<close>, \<^verbatim>\<open>showGameOver\<close>) change nothing of the engine.
\<close>

record IGameRules =
  initializeGame :: "(nat \<Rightarrow> nat) \<Rightarrow> heap \<Rightarrow> ref GameState
                       \<Rightarrow> error \<times> heap \<times> ref GameState + heap \<times> ref GameState"
  validateMove :: "heap \<Rightarrow> ref GameState \<Rightarrow> nat \<Rightarrow> jsval \<Rightarrow> error + bool"
  applyMove :: "heap \<Rightarrow> ref GameState \<Rightarrow> nat \<Rightarrow> jsval
                  \<Rightarrow> error \<times> heap \<times> ref GameState + heap \<times> ref GameState"
  isGameOver :: "heap \<Rightarrow> ref GameState \<Rightarrow> bool"
  getCurrentPlayerId :: "ref GameState \<Rightarrow> string"
  getNextPlayerId :: "ref GameState \<Rightarrow> error + string"
  nextTurn :: "ref GameState \<Rightarrow> error \<times> ref GameState + ref GameState"

definition WarRules :: IGameRules where
  "WarRules = \<lparr>initializeGame = WarRules_initializeGame, validateMove = WarRules_validateMove,
     applyMove = WarRules_applyMove, isGameOver = WarRules_isGameOver,
     getCurrentPlayerId = WarRules_getCurrentPlayerId,
     getNextPlayerId = WarRules_getNextPlayerId, nextTurn = WarRules_nextTurn\<rparr>"

definition GoFishRules :: IGameRules where
  "GoFishRules = \<lparr>initializeGame = GoFishRules_initializeGame,
     validateMove = GoFishRules_validateMove, applyMove = GoFishRules_applyMove,
     isGameOver = GoFishRules_isGameOver,
     getCurrentPlayerId = GoFishRules_getCurrentPlayerId,
     getNextPlayerId = GoFishRules_getNextPlayerId, nextTurn = GoFishRules_nextTurn\<rparr>"

text \<open>
  The engine: the store of card objects, the live state, the snapshots and the move log.
\<close>

record BaseGame =
  objects :: heap
  gameState :: "ref GameState"
  history :: "ref GameState list"
  moveHistory :: "(string \<times> jsval) list"

text \<open>The constructor: \<^verbatim>\<open>new GameState(initialDeck)\<close>, no snapshot, no move.\<close>

definition newGame :: "heap \<Rightarrow> ref list \<Rightarrow> BaseGame" where
  "newGame h initialDeck =
     \<lparr>objects = h,
      gameState = \<lparr>deck = initialDeck, discardPile = [], players = [],
                   currentPlayerId = [], round = 1, customState = emptyCustomState\<rparr>,
      history = [], moveHistory = []\<rparr>"

text \<open>\<^verbatim>\<open>new Player(id, name)\<close>: an empty hand and score \<open>0\<close>.\<close>

definition newPlayer :: "string \<Rightarrow> string \<Rightarrow> 'c Player" where
  "newPlayer i n = \<lparr>player_id = i, player_name = n, hand = [], score = 0\<rparr>"

definition BaseGame_addPlayer :: "ref Player \<Rightarrow> BaseGame \<Rightarrow> BaseGame" where
  "BaseGame_addPlayer p g = g\<lparr>gameState := addPlayer p (gameState g)\<rparr>"

definition saveState :: "BaseGame \<Rightarrow> BaseGame" where
  "saveState g =
     (case GameState_clone (objects g) (gameState g) of
        (h, c) \<Rightarrow> g\<lparr>objects := h, history := history g @ [c]\<rparr>)"

text \<open>
  \<^verbatim>\<open>start\<close> and \<^verbatim>\<open>playMove\<close> catch nothing: an exception of the rules leaves the method at
  once, and the engine stays as it is at that moment.  Their \<open>Inl\<close> carries the exception
  and that engine.  In \<^verbatim>\<open>playMove\<close> the snapshot is pushed before \<^verbatim>\<open>applyMove\<close> is called and
  the move is logged after it has returned.
\<close>

definition start ::
    "IGameRules \<Rightarrow> (nat \<Rightarrow> nat) \<Rightarrow> BaseGame \<Rightarrow> error \<times> BaseGame + BaseGame" where
  "start rules rnd g =
     (let g1 = saveState g in
      case initializeGame rules rnd (objects g1) (gameState g1) of
        Inl (e, h, s) \<Rightarrow> Inl (e, g1\<lparr>objects := h, gameState := s\<rparr>)
      | Inr (h, s) \<Rightarrow> Inr (g1\<lparr>objects := h, gameState := s\<rparr>))"

definition playMove ::
    "IGameRules \<Rightarrow> BaseGame \<Rightarrow> string \<Rightarrow> jsval \<Rightarrow> error \<times> BaseGame + bool \<times> BaseGame" where
  "playMove rules g playerId move =
     (case getPlayerById (gameState g) playerId of
        None \<Rightarrow> Inr (False, g)
      | Some pi \<Rightarrow>
          if playerId \<noteq> getCurrentPlayerId rules (gameState g) then Inr (False, g)
          else (case validateMove rules (objects g) (gameState g) pi move of
            Inl e \<Rightarrow> Inl (e, g)
          | Inr False \<Rightarrow> Inr (False, g)
          | Inr True \<Rightarrow>
              let g1 = saveState g in
              (case applyMove rules (objects g1) (gameState g1) pi move of
                 Inl (e, h, s) \<Rightarrow> Inl (e, g1\<lparr>objects := h, gameState := s\<rparr>)
               | Inr (h, s) \<Rightarrow>
                   let g2 = g1\<lparr>objects := h, gameState := s,
                               moveHistory := moveHistory g1 @ [(playerId, move)]\<rparr>
                   in if isGameOver rules (objects g2) (gameState g2) then Inr (True, g2)
                      else (case nextTurn rules (gameState g2) of
                              Inl (e, s') \<Rightarrow> Inl (e, g2\<lparr>gameState := s'\<rparr>)
                            | Inr s' \<Rightarrow> Inr (True, g2\<lparr>gameState := s'\<rparr>)))))"

definition undo :: "BaseGame \<Rightarrow> bool \<times> BaseGame" where
  "undo g =
     (if length (history g) \<le> 1 then (False, g)
      else
        let g1 = g\<lparr>history := butlast (history g), moveHistory := butlast (moveHistory g)\<rparr>
        in case GameState_clone (objects g1) (history g1 ! (length (history g1) - 1)) of
             (h, c) \<Rightarrow> (True, g1\<lparr>objects := h, gameState := c\<rparr>))"

definition restart :: "BaseGame \<Rightarrow> BaseGame" where
  "restart g =
     (if length (history g) = 0 then g
      else case GameState_clone (objects g) (history g ! 0) of
             (h, c) \<Rightarrow> g\<lparr>objects := h, gameState := c,
                          history := [history g ! 0], moveHistory := []\<rparr>)"

text \<open>The cards of a hand that have the rank of the card \<open>c\<close>.\<close>

definition sameRank :: "heap \<Rightarrow> ref list \<Rightarrow> ref \<Rightarrow> ref list" where
  "sameRank h cs c = filter (\<lambda>x. rankOf (h ! x) = rankOf (h ! c)) cs"

text \<open>The multiset of the ids of the cards a state accounts for.\<close>

definition cardIds :: "heap \<Rightarrow> ref GameState \<Rightarrow> string multiset" where
  "cardIds h s = mset (map (\<lambda>r. card_id (h ! r)) (allCards s))"

text \<open>\<open>grouped f xs g\<close>: \<open>g\<close> is the grouping of \<open>xs\<close> by the key \<open>f\<close>.\<close>

definition grouped :: "('a \<Rightarrow> string) \<Rightarrow> 'a list \<Rightarrow> (string \<times> 'a list) list \<Rightarrow> bool" where
  "grouped f xs g =
     (distinct (map fst g) \<and>
      (\<forall>k. map_of g k = (if filter (\<lambda>x. f x = k) xs = [] then None
                          else Some (filter (\<lambda>x. f x = k) xs))))"

section \<open>Sequences of engine calls\<close>

text \<open>
  A caller drives the engine by a sequence of calls.  \<open>step\<close> gives the boolean the call
  returns (\<^verbatim>\<open>restart\<close> returns nothing; its flag is \<open>True\<close>), or the exception it throws,
  in both cases with the engine the call leaves behind.  A call that throws ends the run
  with the exception and that engine.
\<close>

datatype call = PlayMove string jsval | Undo | Restart

definition step ::
    "IGameRules \<Rightarrow> BaseGame \<Rightarrow> call \<Rightarrow> error \<times> BaseGame + bool \<times> BaseGame" where
  "step rules g c =
     (case c of
        PlayMove playerId move \<Rightarrow> playMove rules g playerId move
      | Undo \<Rightarrow> Inr (undo g)
      | Restart \<Rightarrow> Inr (True, restart g))"

fun run ::
    "IGameRules \<Rightarrow> BaseGame \<Rightarrow> call list \<Rightarrow> error \<times> BaseGame + bool list \<times> BaseGame" where
  "run rules g [] = Inr ([], g)"
| "run rules g (c # cs) =
     (case step rules g c of
        Inl t \<Rightarrow> Inl t
      | Inr (b, g1) \<Rightarrow>
          (case run rules g1 cs of
             Inl t \<Rightarrow> Inl t
           | Inr (bs, g2) \<Rightarrow> Inr (b # bs, g2)))"

text \<open>
  The accepted moves still in effect after a sequence of calls with their results, as the
  specification describes the move log: an accepted move is added at the end, a successful
  undo takes the latest one back, a restart takes all of them back, and a rejected move or
  a failed undo changes nothing.
\<close>

fun movesInEffect :: "(string \<times> jsval) list \<Rightarrow> (call \<times> bool) list \<Rightarrow> (string \<times> jsval) list" where
  "movesInEffect acc [] = acc"
| "movesInEffect acc ((PlayMove playerId move, True) # rest) =
     movesInEffect (acc @ [(playerId, move)]) rest"
| "movesInEffect acc ((Undo, True) # rest) = movesInEffect (butlast acc) rest"
| "movesInEffect acc ((Restart, b) # rest) = movesInEffect [] rest"
| "movesInEffect acc ((c, False) # rest) = movesInEffect acc rest"

section \<open>Example games\<close>

text \<open>\<^verbatim>\<open>new Card(id, name)\<close>: face down.\<close>

definition newCard :: "string \<Rightarrow> string \<Rightarrow> Card" where
  "newCard i n = \<lparr>card_id = i, card_name = n, isFaceUp = False\<rparr>"

text \<open>The shuffle in which every iteration draws \<open>j = i\<close> and so swaps nothing.\<close>

definition noShuffle :: "nat \<Rightarrow> nat" where
  "noShuffle i = i"

text \<open>
  A War game over a deck of four cards with the players \<open>a\<close> and \<open>b\<close>: as constructed, after
  \<^verbatim>\<open>start()\<close>, and after \<^verbatim>\<open>playMove("a", "play")\<close>, in which the king beats the three.
\<close>

definition warCards :: heap where
  "warCards = [newCard ''K-Hearts'' ''K of Hearts'', newCard ''2-Hearts'' ''2 of Hearts'',
               newCard ''3-Spades'' ''3 of Spades'', newCard ''5-Clubs'' ''5 of Clubs'']"

definition warGame0 :: BaseGame where
  "warGame0 = BaseGame_addPlayer (newPlayer ''b'' ''Bob'')
                (BaseGame_addPlayer (newPlayer ''a'' ''Ann'') (newGame warCards [0, 1, 2, 3]))"

definition warState0 :: "ref GameState" where
  "warState0 =
     \<lparr>deck = [0, 1, 2, 3], discardPile = [],
      players = [\<lparr>player_id = ''a'', player_name = ''Ann'', hand = [], score = 0\<rparr>,
                 \<lparr>player_id = ''b'', player_name = ''Bob'', hand = [], score = 0\<rparr>],
      currentPlayerId = ''a'', round = 1, customState = emptyCustomState\<rparr>"

definition warState1 :: "ref GameState" where
  "warState1 =
     \<lparr>deck = [], discardPile = [],
      players = [\<lparr>player_id = ''a'', player_name = ''Ann'', hand = [0, 1], score = 0\<rparr>,
                 \<lparr>player_id = ''b'', player_name = ''Bob'', hand = [2, 3], score = 0\<rparr>],
      currentPlayerId = ''a'', round = 1,
      customState = emptyCustomState
        \<lparr>cardsInPlay := Some [], warMode := Some False, roundWinner := Some None\<rparr>\<rparr>"

definition warState2 :: "ref GameState" where
  "warState2 =
     \<lparr>deck = [], discardPile = [],
      players = [\<lparr>player_id = ''a'', player_name = ''Ann'', hand = [1, 0, 2], score = 3\<rparr>,
                 \<lparr>player_id = ''b'', player_name = ''Bob'', hand = [3], score = 1\<rparr>],
      currentPlayerId = ''b'', round = 1,
      customState = emptyCustomState
        \<lparr>cardsInPlay := Some [], warMode := Some False, roundWinner := Some (Some ''a'')\<rparr>\<rparr>"

definition warCards2 :: heap where
  "warCards2 = [(warCards ! 0)\<lparr>isFaceUp := True\<rparr>, warCards ! 1,
                (warCards ! 2)\<lparr>isFaceUp := True\<rparr>, warCards ! 3]"

definition warGame1 :: BaseGame where
  "warGame1 = \<lparr>objects = warCards, gameState = warState1, history = [warState0],
               moveHistory = []\<rparr>"

definition warGame2 :: BaseGame where
  "warGame2 = \<lparr>objects = warCards2, gameState = warState2, history = [warState0, warState1],
               moveHistory = [(''a'', JStr ''play'')]\<rparr>"

text \<open>The same game after a following \<^verbatim>\<open>undo()\<close>.\<close>

definition warGame3 :: BaseGame where
  "warGame3 = \<lparr>objects = warCards2, gameState = warState0, history = [warState0],
               moveHistory = []\<rparr>"

text \<open>The move log is one entry shorter than the history.\<close>

definition lockstep :: "BaseGame \<Rightarrow> bool" where
  "lockstep g = (length (history g) = Suc (length (moveHistory g)))"

text \<open>
  A War game over a deck of two cards with the players \<open>a\<close> and \<open>b\<close>: as constructed, after
  \<^verbatim>\<open>start()\<close> (one card each), after \<^verbatim>\<open>playMove("a", "play")\<close>, in which the king beats the
  three and \<open>b\<close> is left without a card, so that the game is over and the turn stays with
  \<open>a\<close>, and as the second \<^verbatim>\<open>playMove("a", "play")\<close> leaves it.
\<close>

definition overCards :: heap where
  "overCards = [newCard ''K-Hearts'' ''K of Hearts'', newCard ''3-Spades'' ''3 of Spades'']"

definition overGame0 :: BaseGame where
  "overGame0 = BaseGame_addPlayer (newPlayer ''b'' ''Bob'')
                 (BaseGame_addPlayer (newPlayer ''a'' ''Ann'') (newGame overCards [0, 1]))"

definition overState0 :: "ref GameState" where
  "overState0 =
     \<lparr>deck = [0, 1], discardPile = [],
      players = [\<lparr>player_id = ''a'', player_name = ''Ann'', hand = [], score = 0\<rparr>,
                 \<lparr>player_id = ''b'', player_name = ''Bob'', hand = [], score = 0\<rparr>],
      currentPlayerId = ''a'', round = 1, customState = emptyCustomState\<rparr>"

definition overState1 :: "ref GameState" where
  "overState1 =
     \<lparr>deck = [], discardPile = [],
      players = [\<lparr>player_id = ''a'', player_name = ''Ann'', hand = [0], score = 0\<rparr>,
                 \<lparr>player_id = ''b'', player_name = ''Bob'', hand = [1], score = 0\<rparr>],
      currentPlayerId = ''a'', round = 1,
      customState = emptyCustomState
        \<lparr>cardsInPlay := Some [], warMode := Some False, roundWinner := Some None\<rparr>\<rparr>"

definition overState2 :: "ref GameState" where
  "overState2 =
     \<lparr>deck = [], discardPile = [],
      players = [\<lparr>player_id = ''a'', player_name = ''Ann'', hand = [0, 1], score = 2\<rparr>,
                 \<lparr>player_id = ''b'', player_name = ''Bob'', hand = [], score = 0\<rparr>],
      currentPlayerId = ''a'', round = 1,
      customState = emptyCustomState
        \<lparr>cardsInPlay := Some [], warMode := Some False, roundWinner := Some (Some ''a'')\<rparr>\<rparr>"

definition overState3 :: "ref GameState" where
  "overState3 =
     \<lparr>deck = [], discardPile = [],
      players = [\<lparr>player_id = ''a'', player_name = ''Ann'', hand = [1], score = 2\<rparr>,
                 \<lparr>player_id = ''b'', player_name = ''Bob'', hand = [], score = 0\<rparr>],
      currentPlayerId = ''a'', round = 1,
      customState = emptyCustomState
        \<lparr>cardsInPlay := Some [], warMode := Some False, roundWinner := Some (Some ''a'')\<rparr>\<rparr>"

definition overCards2 :: heap where
  "overCards2 = [(overCards ! 0)\<lparr>isFaceUp := True\<rparr>, (overCards ! 1)\<lparr>isFaceUp := True\<rparr>]"

definition overGame1 :: BaseGame where
  "overGame1 = \<lparr>objects = overCards, gameState = overState1, history = [overState0],
                moveHistory = []\<rparr>"

definition overGame2 :: BaseGame where
  "overGame2 = \<lparr>objects = overCards2, gameState = overState2,
                history = [overState0, overState1],
                moveHistory = [(''a'', JStr ''play'')]\<rparr>"

definition overGame3 :: BaseGame where
  "overGame3 = \<lparr>objects = overCards2, gameState = overState3,
                history = [overState0, overState1, overState2],
                moveHistory = [(''a'', JStr ''play'')]\<rparr>"

text \<open>
  A War game with nine cards in each hand in which the first two rounds are ties: the dealt
  state, the state after \<open>a\<close> has played (and the turn has passed to \<open>b\<close>), and the state
  after \<open>b\<close> has played.  \<open>tieShortState\<close> is a tie with too few cards for a war.
\<close>

definition tieCards :: heap where
  "tieCards = map (\<lambda>(r, su). newCard (r @ ''-'' @ su) (r @ '' of '' @ su))
     [(''5'', ''Hearts''), (''2'', ''Hearts''), (''3'', ''Hearts''), (''4'', ''Hearts''),
      (''9'', ''Hearts''), (''6'', ''Hearts''), (''7'', ''Hearts''), (''8'', ''Hearts''),
      (''10'', ''Hearts''),
      (''5'', ''Spades''), (''2'', ''Spades''), (''3'', ''Spades''), (''4'', ''Spades''),
      (''9'', ''Spades''), (''6'', ''Spades''), (''7'', ''Spades''), (''8'', ''Spades''),
      (''10'', ''Spades'')]"

definition tieState0 :: "ref GameState" where
  "tieState0 =
     \<lparr>deck = [], discardPile = [],
      players = [\<lparr>player_id = ''a'', player_name = ''Ann'',
                  hand = [0, 1, 2, 3, 4, 5, 6, 7, 8], score = 0\<rparr>,
                 \<lparr>player_id = ''b'', player_name = ''Bob'',
                  hand = [9, 10, 11, 12, 13, 14, 15, 16, 17], score = 0\<rparr>],
      currentPlayerId = ''a'', round = 1,
      customState = emptyCustomState
        \<lparr>cardsInPlay := Some [], warMode := Some False, roundWinner := Some None\<rparr>\<rparr>"

definition tieCards1 :: heap where
  "tieCards1 = setFaceUp 9 (setFaceUp 0 tieCards)"

definition tieState1 :: "ref GameState" where
  "tieState1 =
     \<lparr>deck = [], discardPile = [],
      players = [\<lparr>player_id = ''a'', player_name = ''Ann'',
                  hand = [4, 5, 6, 7, 8], score = 0\<rparr>,
                 \<lparr>player_id = ''b'', player_name = ''Bob'',
                  hand = [13, 14, 15, 16, 17], score = 0\<rparr>],
      currentPlayerId = ''b'', round = 1,
      customState = emptyCustomState
        \<lparr>cardsInPlay := Some [0, 9, 1, 10, 2, 11, 3, 12], warMode := Some True,
         roundWinner := Some None\<rparr>\<rparr>"

definition tieCards2 :: heap where
  "tieCards2 = setFaceUp 4 (setFaceUp 13 tieCards1)"

definition tieState2 :: "ref GameState" where
  "tieState2 =
     \<lparr>deck = [], discardPile = [],
      players = [\<lparr>player_id = ''a'', player_name = ''Ann'', hand = [8], score = 0\<rparr>,
                 \<lparr>player_id = ''b'', player_name = ''Bob'', hand = [17], score = 0\<rparr>],
      currentPlayerId = ''b'', round = 1,
      customState = emptyCustomState
        \<lparr>cardsInPlay := Some [0, 9, 1, 10, 2, 11, 3, 12, 13, 4, 14, 5, 15, 6, 16, 7],
         warMode := Some True, roundWinner := Some None\<rparr>\<rparr>"

definition tieShortState :: "ref GameState" where
  "tieShortState =
     \<lparr>deck = [], discardPile = [],
      players = [\<lparr>player_id = ''a'', player_name = ''Ann'', hand = [0, 1, 2], score = 3\<rparr>,
                 \<lparr>player_id = ''b'', player_name = ''Bob'', hand = [9], score = 1\<rparr>],
      currentPlayerId = ''a'', round = 1,
      customState = emptyCustomState
        \<lparr>cardsInPlay := Some [], warMode := Some False, roundWinner := Some None\<rparr>\<rparr>"

text \<open>
  A Go Fish game over sixteen cards with the players \<open>a\<close> and \<open>b\<close>: as constructed, before
  and after the deal (seven cards each, two left in the deck), and after \<open>a\<close> has asked \<open>b\<close>
  for sevens, drawn the fourth seven and booked the four (\<open>fishState2\<close>), or has asked for
  twos and received one (\<open>fishState3\<close>).
\<close>

definition fishCards :: heap where
  "fishCards = map (\<lambda>(r, su). newCard (r @ ''-'' @ su) (r @ '' of '' @ su))
     [(''7'', ''Hearts''), (''2'', ''Spades''), (''7'', ''Diamonds''), (''3'', ''Spades''),
      (''7'', ''Clubs''), (''4'', ''Spades''), (''2'', ''Hearts''), (''5'', ''Spades''),
      (''3'', ''Diamonds''), (''6'', ''Spades''), (''4'', ''Hearts''), (''8'', ''Spades''),
      (''5'', ''Hearts''), (''9'', ''Spades''), (''7'', ''Spades''), (''3'', ''Hearts'')]"


definition fishState0 :: "ref GameState" where
  "fishState0 =
     \<lparr>deck = [0, 1, 2, 3, 4, 5, 6, 7, 8, 9, 10, 11, 12, 13, 14, 15], discardPile = [],
      players = [\<lparr>player_id = ''a'', player_name = ''Ann'', hand = [], score = 0\<rparr>,
                 \<lparr>player_id = ''b'', player_name = ''Bob'', hand = [], score = 0\<rparr>],
      currentPlayerId = ''a'', round = 1, customState = emptyCustomState\<rparr>"

definition fishState1 :: "ref GameState" where
  "fishState1 =
     \<lparr>deck = [14, 15], discardPile = [],
      players = [\<lparr>player_id = ''a'', player_name = ''Ann'',
                  hand = [0, 2, 4, 6, 8, 10, 12], score = 0\<rparr>,
                 \<lparr>player_id = ''b'', player_name = ''Bob'',
                  hand = [1, 3, 5, 7, 9, 11, 13], score = 0\<rparr>],
      currentPlayerId = ''a'', round = 1,
      customState = emptyCustomState
        \<lparr>books := Some [], lastAction := Some None, gameOver := Some False\<rparr>\<rparr>"

definition askSevens :: jsval where
  "askSevens = JObj [(''targetPlayerId'', JStr ''b''), (''rank'', JStr ''7'')]"

definition fishState2 :: "ref GameState" where
  "fishState2 =
     \<lparr>deck = [15], discardPile = [],
      players = [\<lparr>player_id = ''a'', player_name = ''Ann'',
                  hand = [6, 8, 10, 12], score = 1\<rparr>,
                 \<lparr>player_id = ''b'', player_name = ''Bob'',
                  hand = [1, 3, 5, 7, 9, 11, 13], score = 0\<rparr>],
      currentPlayerId = ''a'', round = 1,
      customState = emptyCustomState
        \<lparr>books := Some [(''a'', [''7''])],
         lastAction := Some (Some
           ''Ann asked Bob for 7s and was told to Go Fish! Ann drew the 7 of Spades and gets another turn!''),
         gameOver := Some False, anotherTurn := Some True\<rparr>\<rparr>"

definition fishGame1 :: BaseGame where
  "fishGame1 = \<lparr>objects = fishCards, gameState = fishState1, history = [fishState0],
                moveHistory = []\<rparr>"


definition fishDrawn :: "ref GameState" where
  "fishDrawn = setAnotherTurn True
     (setHand 0 (addCards [14] (hand (players (fishState1\<lparr>deck := [15]\<rparr>) ! 0)))
        (fishState1\<lparr>deck := [15]\<rparr>))"



section \<open>Basic facts\<close>

lemma shuffle_loop_noShuffle: "n < length xs \<Longrightarrow> shuffle_loop noShuffle n xs = xs"
  by (induction n) (simp_all add: noShuffle_def swap_def)

lemma shuffle_noShuffle: "shuffle noShuffle xs = xs"
  by (cases xs) (simp_all add: shuffle_def shuffle_loop_noShuffle)

lemma Player_clone_id: "Player_clone p = p"
  by (simp add: Player_clone_def)

lemma map_Player_clone: "map Player_clone ps = ps"
  by (induction ps) (simp_all add: Player_clone_id)

lemma json_clone_None: "cardsInPlay cs = None \<Longrightarrow> json_clone h cs = (h, cs)"
  by (simp add: json_clone_def)

lemma GameState_clone_no_cards:
  "cardsInPlay (customState s) = None \<Longrightarrow> GameState_clone h s = (h, s)"
  by (simp add: GameState_clone_def json_clone_None map_Player_clone)

lemma json_clone_Nil: "cardsInPlay cs = Some [] \<Longrightarrow> json_clone h cs = (h, cs)"
  by (simp add: json_clone_def json_copy_cards_def)

lemma GameState_clone_Nil:
  "cardsInPlay (customState s) = Some [] \<Longrightarrow> GameState_clone h s = (h, s)"
  by (simp add: GameState_clone_def json_clone_Nil map_Player_clone)

lemma saveState_history:
  "history (saveState g) = history g @ [snd (GameState_clone (objects g) (gameState g))]"
  by (simp add: saveState_def split: prod.splits)

lemma saveState_moveHistory: "moveHistory (saveState g) = moveHistory g"
  by (simp add: saveState_def split: prod.splits)

lemma playMove_accepted:
  assumes "playMove rules g playerId move = Inr (True, g')"
  shows "history g' = history g @ [snd (GameState_clone (objects g) (gameState g))]
       \<and> moveHistory g' = moveHistory g @ [(playerId, move)]"
  using assms
  by (auto simp: playMove_def Let_def saveState_history saveState_moveHistory
      split: option.splits if_splits sum.splits bool.splits prod.splits)

lemma playMove_rejected:
  assumes "playMove rules g playerId move = Inr (False, g')"
  shows "g' = g"
  using assms
  by (auto simp: playMove_def Let_def
      split: option.splits if_splits sum.splits bool.splits prod.splits)

lemma undo_False: "undo g = (False, g') \<Longrightarrow> g' = g"
  by (auto simp: undo_def Let_def split: if_splits prod.splits)

lemma undo_True:
  "undo g = (True, g') \<Longrightarrow>
     history g' = butlast (history g) \<and> moveHistory g' = butlast (moveHistory g)
     \<and> 1 < length (history g)"
  by (auto simp: undo_def Let_def split: if_splits prod.splits)

lemma restart_fields:
  "history g \<noteq> [] \<Longrightarrow> history (restart g) = [history g ! 0] \<and> moveHistory (restart g) = []"
  by (auto simp: restart_def split: prod.splits)

lemma start_fields:
  assumes "start rules rnd g0 = Inr g1"
  shows "history g1 = history g0 @ [snd (GameState_clone (objects g0) (gameState g0))]
       \<and> moveHistory g1 = moveHistory g0"
  using assms
  by (auto simp: start_def Let_def saveState_history saveState_moveHistory
      split: sum.splits prod.splits)

subsection \<open>The example War game\<close>

lemma warGame0_eq:
  "warGame0 = \<lparr>objects = warCards, gameState = warState0, history = [], moveHistory = []\<rparr>"
  by (simp add: warGame0_def warState0_def BaseGame_addPlayer_def addPlayer_def newGame_def
      newPlayer_def Let_def)

lemma war_start: "start WarRules noShuffle warGame0 = Inr warGame1"
  by (simp add: start_def saveState_def warGame0_eq GameState_clone_no_cards warState0_def
      emptyCustomState_def WarRules_def WarRules_initializeGame_def shuffle_noShuffle draw_def
      addCards_def Let_def warGame1_def warState1_def)

lemma war_move_a: "playMove WarRules warGame1 ''a'' (JStr ''play'') = Inr (True, warGame2)"
  by (simp add: playMove_def warGame1_def warState1_def getPlayerById_def WarRules_def
      WarRules_getCurrentPlayerId_def WarRules_validateMove_def saveState_def
      GameState_clone_Nil emptyCustomState_def Let_def WarRules_applyMove_def inPlay_def
      takeFirstCard_def removeCard_def warCards_def newCard_def WarRules_getCardRank_def
      rankOf_def rankMap_def withHeap_def handleRoundWin_def addCards_def
      setScoreToHandSize_def WarRules_isGameOver_def WarRules_nextTurn_def
      WarRules_getNextPlayerId_def warGame2_def warState2_def warCards2_def setFaceUp_def)

lemma war_move_b_rejected:
  "playMove WarRules warGame1 ''b'' (JStr ''play'') = Inr (False, warGame1)"
  by (simp add: playMove_def warGame1_def warState1_def getPlayerById_def WarRules_def
      WarRules_getCurrentPlayerId_def)

lemma war_undo: "undo warGame2 = (True, warGame3)"
  by (simp add: undo_def warGame2_def warGame3_def Let_def GameState_clone_no_cards
      warState0_def emptyCustomState_def)

section \<open>Rejected moves\<close>

text \<open>
  C4.  A move is rejected when the player id names no player, when it is not the id the
  rules give as the current player, or when \<^verbatim>\<open>validateMove\<close> returns false for the player
  found.  In each case \<^verbatim>\<open>playMove\<close> returns false and the engine (the card objects, the live
  state, the history and the move log) is exactly what it was.  This holds for every rule
  set of the contract, War and Go Fish among them: neither \<^verbatim>\<open>validateMove\<close> nor
  \<^verbatim>\<open>getCurrentPlayerId\<close> writes to the state.
\<close>

theorem rejected_move_atomic:
  assumes "getPlayerById (gameState g) playerId = None
         \<or> playerId \<noteq> getCurrentPlayerId rules (gameState g)
         \<or> (\<exists>pi. getPlayerById (gameState g) playerId = Some pi
                \<and> validateMove rules (objects g) (gameState g) pi move = Inr False)"
  shows "playMove rules g playerId move = Inr (False, g)"
  using assms by (auto simp: playMove_def split: option.splits)

theorem rejected_move_atomic_witness:
  "''b'' \<noteq> getCurrentPlayerId WarRules (gameState warGame1)
   \<and> playMove WarRules warGame1 ''b'' (JStr ''play'') = Inr (False, warGame1)
   \<and> getPlayerById (gameState warGame1) ''c'' = None
   \<and> playMove WarRules warGame1 ''c'' (JStr ''play'') = Inr (False, warGame1)
   \<and> validateMove WarRules (objects warGame1) (gameState warGame1) 0 (JStr ''pass'') = Inr False
   \<and> playMove WarRules warGame1 ''a'' (JStr ''pass'') = Inr (False, warGame1)
   \<and> validateMove GoFishRules (objects fishGame1) (gameState fishGame1) 0
         (JObj [(''targetPlayerId'', JStr ''b''), (''rank'', JStr ''9'')]) = Inr False
   \<and> playMove GoFishRules fishGame1 ''a''
         (JObj [(''targetPlayerId'', JStr ''b''), (''rank'', JStr ''9'')]) = Inr (False, fishGame1)"
proof -
  let ?nines = "JObj [(''targetPlayerId'', JStr ''b''), (''rank'', JStr ''9'')]"
  have h1: "''b'' \<noteq> getCurrentPlayerId WarRules (gameState warGame1)"
    by (simp add: WarRules_def WarRules_getCurrentPlayerId_def warGame1_def warState1_def)
  have h2: "getPlayerById (gameState warGame1) ''c'' = None"
    by (simp add: getPlayerById_def warGame1_def warState1_def)
  have h3: "getPlayerById (gameState warGame1) ''a'' = Some 0"
    by (simp add: getPlayerById_def warGame1_def warState1_def)
  have h4: "validateMove WarRules (objects warGame1) (gameState warGame1) 0 (JStr ''pass'')
              = Inr False"
    by (simp add: WarRules_def WarRules_validateMove_def)
  have h5: "getPlayerById (gameState fishGame1) ''a'' = Some 0"
    by (simp add: getPlayerById_def fishGame1_def fishState1_def)
  have h6: "validateMove GoFishRules (objects fishGame1) (gameState fishGame1) 0 ?nines
              = Inr False"
    by (simp add: GoFishRules_def GoFishRules_validateMove_def fishGame1_def fishState1_def
        getPlayerById_def fishCards_def newCard_def rankOf_def)
  from h1 have c1: "playMove WarRules warGame1 ''b'' (JStr ''play'') = Inr (False, warGame1)"
    by (intro rejected_move_atomic) simp
  from h2 have c2: "playMove WarRules warGame1 ''c'' (JStr ''play'') = Inr (False, warGame1)"
    by (intro rejected_move_atomic) simp
  from h3 h4 have c3: "playMove WarRules warGame1 ''a'' (JStr ''pass'') = Inr (False, warGame1)"
    by (intro rejected_move_atomic) simp
  from h5 h6 have c4: "playMove GoFishRules fishGame1 ''a'' ?nines = Inr (False, fishGame1)"
    by (intro rejected_move_atomic) simp
  from h1 h2 h4 h6 c1 c2 c3 c4 show ?thesis by simp
qed

section \<open>History and move log in lockstep\<close>

lemma step_lockstep:
  assumes "lockstep g" "step rules g c = Inr (b, g')"
  shows "lockstep g' \<and> moveHistory g' = movesInEffect (moveHistory g) [(c, b)]
         \<and> history g' ! 0 = history g ! 0"
proof (cases c)
  case (PlayMove p m)
  with assms(2) have pm: "playMove rules g p m = Inr (b, g')" by (simp add: step_def)
  show ?thesis
  proof (cases b)
    case True
    with pm assms(1) PlayMove show ?thesis
      by (auto dest!: playMove_accepted simp: lockstep_def nth_append)
  next
    case False
    with pm assms(1) PlayMove show ?thesis
      by (auto dest!: playMove_rejected)
  qed
next
  case Undo
  with assms(2) have u: "undo g = (b, g')" by (simp add: step_def)
  show ?thesis
  proof (cases b)
    case True
    with u have "history g' = butlast (history g)" "moveHistory g' = butlast (moveHistory g)"
      "1 < length (history g)" by (auto dest: undo_True)
    with assms(1) Undo True show ?thesis
      by (auto simp: lockstep_def nth_butlast)
  next
    case False
    with u assms(1) Undo show ?thesis by (auto dest!: undo_False)
  qed
next
  case Restart
  with assms(2) have r: "g' = restart g" by (simp add: step_def)
  from assms(1) have "history g \<noteq> []" by (auto simp: lockstep_def)
  with r Restart show ?thesis
    by (auto simp: lockstep_def restart_fields)
qed

lemma movesInEffect_Cons:
  "movesInEffect acc (x # rest) = movesInEffect (movesInEffect acc [x]) rest"
  by (cases "(acc, [x])" rule: movesInEffect.cases) auto

lemma run_lockstep:
  assumes "lockstep g" "run rules g calls = Inr (outs, g')"
  shows "lockstep g' \<and> moveHistory g' = movesInEffect (moveHistory g) (zip calls outs)
         \<and> history g' ! 0 = history g ! 0"
  using assms
proof (induction calls arbitrary: g outs)
  case Nil
  then show ?case by simp
next
  case (Cons c cs)
  from Cons.prems(2) obtain b g1 bs where
    st: "step rules g c = Inr (b, g1)" and rn: "run rules g1 cs = Inr (bs, g')"
    and o: "outs = b # bs"
    by (auto split: sum.splits prod.splits)
  from step_lockstep[OF Cons.prems(1) st] have
    l1: "lockstep g1" and m1: "moveHistory g1 = movesInEffect (moveHistory g) [(c, b)]"
    and h1: "history g1 ! 0 = history g ! 0" by auto
  from Cons.IH[OF l1 rn] m1 h1 o show ?case
    using movesInEffect_Cons[of "moveHistory g" "(c, b)" "zip cs bs"] by simp
qed

lemma war_run:
  "run WarRules warGame1
     [PlayMove ''b'' (JStr ''play''), PlayMove ''a'' (JStr ''play''), Undo, Undo]
   = Inr ([False, True, True, False], warGame3)"
proof -
  have "undo warGame3 = (False, warGame3)"
    by (simp add: undo_def warGame3_def)
  then show ?thesis
    by (simp add: step_def war_move_b_rejected war_move_a war_undo)
qed

text \<open>
  Every call that returns keeps the history one entry ahead of the move log, and the log
  lists, in order, the player id and move of every accepted move still in effect.
\<close>

lemma returning_calls_lockstep:
  assumes "history g0 = []" and "moveHistory g0 = []"
    and "start rules rnd g0 = Inr g1"
    and "run rules g1 calls = Inr (outs, g2)"
  shows "length (moveHistory g2) = length (history g2) - 1 \<and> history g2 \<noteq> []
       \<and> moveHistory g2 = movesInEffect [] (zip calls outs)"
proof -
  from start_fields[OF assms(3)] assms(1,2) have "lockstep g1" "moveHistory g1 = []"
    by (auto simp: lockstep_def)
  with run_lockstep[OF _ assms(4)] show ?thesis
    by (auto simp: lockstep_def)
qed

text \<open>
  A call of \<^verbatim>\<open>playMove\<close> that throws leaves the engine in one of three ways: unchanged
  (\<^verbatim>\<open>validateMove\<close> threw), with the snapshot pushed and the move not logged (\<^verbatim>\<open>applyMove\<close>
  threw), or with both pushed (\<^verbatim>\<open>nextTurn\<close> threw).
\<close>

lemma playMove_thrown:
  assumes "playMove rules g playerId move = Inl (e, g')"
  shows "g' = g
       \<or> (history g' = history g @ [snd (GameState_clone (objects g) (gameState g))]
          \<and> moveHistory g' = moveHistory g)
       \<or> (history g' = history g @ [snd (GameState_clone (objects g) (gameState g))]
          \<and> moveHistory g' = moveHistory g @ [(playerId, move)])"
  using assms
  by (auto simp: playMove_def Let_def saveState_history saveState_moveHistory
      split: option.splits if_splits sum.splits bool.splits prod.splits)

subsection \<open>The War game that is over\<close>

lemma overGame0_eq:
  "overGame0 = \<lparr>objects = overCards, gameState = overState0, history = [], moveHistory = []\<rparr>"
  by (simp add: overGame0_def overState0_def BaseGame_addPlayer_def addPlayer_def newGame_def
      newPlayer_def Let_def)

lemma over_start: "start WarRules noShuffle overGame0 = Inr overGame1"
  by (simp add: start_def saveState_def overGame0_eq GameState_clone_no_cards overState0_def
      emptyCustomState_def WarRules_def WarRules_initializeGame_def shuffle_noShuffle draw_def
      addCards_def Let_def overGame1_def overState1_def)

lemma over_move_a: "playMove WarRules overGame1 ''a'' (JStr ''play'') = Inr (True, overGame2)"
  by (simp add: playMove_def overGame1_def overState1_def getPlayerById_def WarRules_def
      WarRules_getCurrentPlayerId_def WarRules_validateMove_def saveState_def
      GameState_clone_Nil emptyCustomState_def Let_def WarRules_applyMove_def inPlay_def
      takeFirstCard_def removeCard_def overCards_def newCard_def WarRules_getCardRank_def
      rankOf_def rankMap_def withHeap_def handleRoundWin_def addCards_def
      setScoreToHandSize_def WarRules_isGameOver_def overGame2_def overState2_def
      overCards2_def setFaceUp_def)

lemma over_move_again:
  "playMove WarRules overGame2 ''a'' (JStr ''play'') = Inl (TypeError, overGame3)"
  by (simp add: playMove_def overGame2_def overState2_def getPlayerById_def WarRules_def
      WarRules_getCurrentPlayerId_def WarRules_validateMove_def saveState_def
      GameState_clone_Nil emptyCustomState_def Let_def WarRules_applyMove_def inPlay_def
      takeFirstCard_def removeCard_def overCards2_def overCards_def newCard_def
      overGame3_def overState3_def)

text \<open>
  A following \<^verbatim>\<open>undo()\<close> pops one entry of each list, so the history stays two ahead.
\<close>

lemma over_undo_after_throw:
  "undo overGame3 = (True, \<lparr>objects = overCards2, gameState = overState1,
                            history = [overState0, overState1], moveHistory = []\<rparr>)"
  by (simp add: undo_def overGame3_def Let_def GameState_clone_Nil overState1_def
      emptyCustomState_def)

text \<open>
  C6.  The history and the move log do not stay in lockstep over every sequence of
  \<^verbatim>\<open>playMove\<close> calls.  \<^verbatim>\<open>playMove\<close> pushes the snapshot before it calls \<^verbatim>\<open>applyMove\<close> and logs
  the move after \<^verbatim>\<open>applyMove\<close> has returned, and it catches nothing.  In a War game over two
  cards the first move of \<open>a\<close> wins both cards and ends the game, with the history one
  entry ahead of the log.  \<^verbatim>\<open>validateMove\<close> still accepts a second move of \<open>a\<close>, who holds
  cards; the snapshot is pushed; \<^verbatim>\<open>applyMove\<close> takes the first card out of the hand of \<open>a\<close>
  and throws a TypeError on the first card of the empty hand of \<open>b\<close>.  The engine is left
  with three snapshots and one logged move: the history is two entries ahead of the log.
\<close>

theorem throwing_move_breaks_lockstep:
  "start WarRules noShuffle overGame0 = Inr overGame1
   \<and> playMove WarRules overGame1 ''a'' (JStr ''play'') = Inr (True, overGame2)
   \<and> length (history overGame2) = length (moveHistory overGame2) + 1
   \<and> playMove WarRules overGame2 ''a'' (JStr ''play'') = Inl (TypeError, overGame3)
   \<and> run WarRules overGame1 [PlayMove ''a'' (JStr ''play''), PlayMove ''a'' (JStr ''play'')]
       = Inl (TypeError, overGame3)
   \<and> length (history overGame3) = 3 \<and> length (moveHistory overGame3) = 1
   \<and> length (history overGame3) = length (moveHistory overGame3) + 2"
proof -
  have r: "run WarRules overGame1 [PlayMove ''a'' (JStr ''play''), PlayMove ''a'' (JStr ''play'')]
             = Inl (TypeError, overGame3)"
    by (simp add: step_def over_move_a over_move_again)
  have l2: "length (history overGame2) = length (moveHistory overGame2) + 1"
    by (simp add: overGame2_def)
  have l3: "length (history overGame3) = 3" "length (moveHistory overGame3) = 1"
    by (simp_all add: overGame3_def)
  from over_start over_move_a over_move_again r l2 l3 show ?thesis by simp
qed

section \<open>Cloning and the store\<close>

text \<open>
  A clone holds the card references of the original and allocates new objects for the
  cards of \<^verbatim>\<open>customState\<close> only; the store grows at its end, so the value of a state
  without dangling references is unchanged, and the clone has the value of the original.
\<close>

lemma deref_cong:
  assumes "\<forall>r\<in>set (allCards s). h' ! r = h ! r"
  shows "deref h' s = deref h s"
proof -
  from assms have d: "map (\<lambda>r. h' ! r) (deck s) = map (\<lambda>r. h ! r) (deck s)"
    and dp: "map (\<lambda>r. h' ! r) (discardPile s) = map (\<lambda>r. h ! r) (discardPile s)"
    and pl: "\<forall>p\<in>set (players s). map (\<lambda>r. h' ! r) (hand p) = map (\<lambda>r. h ! r) (hand p)"
    and ip: "map (\<lambda>r. h' ! r) (inPlay s) = map (\<lambda>r. h ! r) (inPlay s)"
    by (auto simp: allCards_def heldCards_def)
  from pl have "map (deref_player h') (players s) = map (deref_player h) (players s)"
    by (auto simp: deref_player_def)
  moreover from ip have "deref_custom h' (customState s) = deref_custom h (customState s)"
    by (cases "cardsInPlay (customState s)") (auto simp: deref_custom_def inPlay_def)
  ultimately show ?thesis using d dp by (simp add: deref_def)
qed

lemma deref_append:
  assumes "wf_state h s"
  shows "deref (h @ ext) s = deref h s"
  using assms by (intro deref_cong) (auto simp: wf_state_def list_all_iff nth_append)

lemma wf_state_append: "wf_state h s \<Longrightarrow> wf_state (h @ ext) s"
  by (auto simp: wf_state_def list_all_iff)

lemma map_nth_fresh:
  "map (\<lambda>r. (h @ xs) ! r) [length h ..< length h + length xs] = xs"
  by (rule nth_equalityI) (simp_all add: nth_append)

lemma GameState_clone_props:
  assumes "GameState_clone h s = (h', c)"
  shows "\<exists>ext. h' = h @ ext"
    and "wf_state h s \<Longrightarrow> deref h' c = deref h s"
    and "wf_state h s \<Longrightarrow> wf_state h' c"
proof -
  show "\<exists>ext. h' = h @ ext" using assms
    by (auto simp: GameState_clone_def json_clone_def json_copy_cards_def split: option.splits prod.splits)
next
  assume wf: "wf_state h s"
  show "deref h' c = deref h s"
  proof (cases "cardsInPlay (customState s)")
    case None
    with assms show ?thesis by (simp add: GameState_clone_no_cards)
  next
    case (Some rs)
    with assms have h': "h' = h @ map (\<lambda>r. h ! r) rs"
      and c: "c = s\<lparr>customState := (customState s)\<lparr>cardsInPlay := Some [length h ..< length h + length rs]\<rparr>\<rparr>"
      by (auto simp: GameState_clone_def json_clone_def json_copy_cards_def map_Player_clone)
    from wf have in_range: "\<forall>r\<in>set (deck s @ discardPile s @ concat (map hand (players s))). r < length h"
      by (auto simp: wf_state_def allCards_def heldCards_def list_all_iff)
    have "map (\<lambda>r. h' ! r) [length h ..< length h + length rs] = map (\<lambda>r. h ! r) rs"
      using map_nth_fresh[of h "map (\<lambda>r. h ! r) rs"] by (simp add: h')
    moreover from in_range have "map (\<lambda>r. h' ! r) (deck s) = map (\<lambda>r. h ! r) (deck s)"
      "map (\<lambda>r. h' ! r) (discardPile s) = map (\<lambda>r. h ! r) (discardPile s)"
      "map (deref_player h') (players s) = map (deref_player h) (players s)"
      by (auto simp: h' nth_append deref_player_def)
    ultimately show ?thesis using Some
      by (simp add: deref_def c deref_custom_def)
  qed
next
  assume wf: "wf_state h s"
  show "wf_state h' c" using assms wf
    by (fastforce simp: GameState_clone_def json_clone_def json_copy_cards_def map_Player_clone
        wf_state_def allCards_def heldCards_def inPlay_def list_all_iff ball_Un
        split: option.splits)
qed

lemma restart_props:
  assumes "history g \<noteq> []" "wf_state (objects g) (history g ! 0)"
  shows "history (restart g) = [history g ! 0] \<and> moveHistory (restart g) = []
       \<and> (\<exists>ext. objects (restart g) = objects g @ ext)
       \<and> deref (objects (restart g)) (gameState (restart g)) = deref (objects g) (history g ! 0)"
proof -
  obtain h' c where cl: "GameState_clone (objects g) (history g ! 0) = (h', c)"
    by (cases "GameState_clone (objects g) (history g ! 0)")
  with assms(1) have r: "restart g = g\<lparr>objects := h', gameState := c, history := [history g ! 0], moveHistory := []\<rparr>"
    by (simp add: restart_def)
  from GameState_clone_props[OF cl] assms(2) show ?thesis by (simp add: r)
qed

lemma restart_iter:
  assumes "history g \<noteq> []" "wf_state (objects g) (history g ! 0)"
  shows "history ((restart ^^ Suc n) g) = [history g ! 0] \<and> moveHistory ((restart ^^ Suc n) g) = []
       \<and> (\<exists>ext. objects ((restart ^^ Suc n) g) = objects g @ ext)
       \<and> deref (objects ((restart ^^ Suc n) g)) (gameState ((restart ^^ Suc n) g)) = deref (objects g) (history g ! 0)"
proof (induction n)
  case 0
  from restart_props[OF assms] show ?case by simp
next
  case (Suc n)
  let ?g = "(restart ^^ Suc n) g"
  from Suc obtain ext where hi: "history ?g = [history g ! 0]" and ob: "objects ?g = objects g @ ext"
    by auto
  from hi have ne: "history ?g \<noteq> []" by simp
  from hi ob assms(2) have wf: "wf_state (objects ?g) (history ?g ! 0)"
    by (simp add: wf_state_append)
  from restart_props[OF ne wf] hi ob assms(2) show ?case
    by (auto simp: deref_append)
qed

section \<open>Restart\<close>

text \<open>
  C5.  For an engine with a non-empty history (whose first snapshot holds no dangling card
  reference), calling \<^verbatim>\<open>restart()\<close> \<open>n + 1\<close> times in a row gives a live state value-equal
  to the one after a single call; after any such call the live state is value-equal to
  \<^verbatim>\<open>history[0]\<close>, the history is exactly that one entry and the move log is empty.
\<close>

theorem restart_idempotent:
  assumes "history g \<noteq> []" and "wf_state (objects g) (history g ! 0)"
  shows "deref (objects ((restart ^^ Suc n) g)) (gameState ((restart ^^ Suc n) g))
           = deref (objects (restart g)) (gameState (restart g))
       \<and> deref (objects ((restart ^^ Suc n) g)) (gameState ((restart ^^ Suc n) g))
           = deref (objects ((restart ^^ Suc n) g)) (history ((restart ^^ Suc n) g) ! 0)
       \<and> history ((restart ^^ Suc n) g) = [history g ! 0]
       \<and> moveHistory ((restart ^^ Suc n) g) = []"
proof -
  from restart_iter[OF assms, of n] obtain ext where
    a: "history ((restart ^^ Suc n) g) = [history g ! 0]" "moveHistory ((restart ^^ Suc n) g) = []"
    "objects ((restart ^^ Suc n) g) = objects g @ ext"
    "deref (objects ((restart ^^ Suc n) g)) (gameState ((restart ^^ Suc n) g)) = deref (objects g) (history g ! 0)"
    by blast
  from restart_props[OF assms] have
    b: "deref (objects (restart g)) (gameState (restart g)) = deref (objects g) (history g ! 0)" by simp
  from a b assms(2) show ?thesis by (simp add: deref_append)
qed

theorem restart_idempotent_witness:
  "history warGame2 \<noteq> [] \<and> wf_state (objects warGame2) (history warGame2 ! 0)
   \<and> deref (objects ((restart ^^ Suc 2) warGame2)) (gameState ((restart ^^ Suc 2) warGame2))
        = deref (objects (restart warGame2)) (gameState (restart warGame2))
   \<and> deref (objects ((restart ^^ Suc 2) warGame2)) (gameState ((restart ^^ Suc 2) warGame2))
        = deref (objects ((restart ^^ Suc 2) warGame2)) (history ((restart ^^ Suc 2) warGame2) ! 0)
   \<and> history ((restart ^^ Suc 2) warGame2) = [history warGame2 ! 0]
   \<and> moveHistory ((restart ^^ Suc 2) warGame2) = []"
proof -
  have h1: "history warGame2 \<noteq> []" by (simp add: warGame2_def)
  have h2: "wf_state (objects warGame2) (history warGame2 ! 0)"
    by (simp add: warGame2_def wf_state_def allCards_def heldCards_def warState0_def inPlay_def
        emptyCustomState_def warCards2_def)
  from restart_idempotent[OF h1 h2, of 2] h1 h2 show ?thesis by blast
qed

text \<open>
  C9.  \<^verbatim>\<open>start()\<close> takes its snapshot before \<^verbatim>\<open>initializeGame\<close> runs, so for a new engine
  (no snapshot yet, empty \<^verbatim>\<open>customState\<close>, empty hands) \<^verbatim>\<open>history[0]\<close> is the state before
  initialization, and it stays the first snapshot through every later call.
  \<^verbatim>\<open>restart()\<close>, which takes no rules and so cannot run \<^verbatim>\<open>initializeGame\<close>, makes that
  state the live state again: the undealt deck in \<^verbatim>\<open>state.deck\<close>, every hand empty,
  \<^verbatim>\<open>customState\<close> empty.
\<close>

theorem restart_restores_pre_init:
  assumes "history g0 = []" and "moveHistory g0 = []"
    and "customState (gameState g0) = emptyCustomState"
    and "list_all (\<lambda>p. hand p = []) (players (gameState g0))"
    and "start rules rnd g0 = Inr g1"
    and "run rules g1 calls = Inr (outs, g2)"
  shows "history g1 = [gameState g0] \<and> history g2 ! 0 = gameState g0
       \<and> gameState (restart g2) = gameState g0
       \<and> deck (gameState (restart g2)) = deck (gameState g0)
       \<and> list_all (\<lambda>p. hand p = []) (players (gameState (restart g2)))
       \<and> customState (gameState (restart g2)) = emptyCustomState
       \<and> history (restart g2) = [gameState g0] \<and> moveHistory (restart g2) = []"
proof -
  from assms(3) have nc: "cardsInPlay (customState (gameState g0)) = None"
    by (simp add: emptyCustomState_def)
  from start_fields[OF assms(5)] assms(1,2) nc
  have h1: "history g1 = [gameState g0]" and m1: "moveHistory g1 = []"
    by (simp_all add: GameState_clone_no_cards)
  then have l1: "lockstep g1" by (simp add: lockstep_def)
  from run_lockstep[OF l1 assms(6)] h1
  have l2: "lockstep g2" and h2: "history g2 ! 0 = gameState g0" by simp_all
  from l2 have ne: "history g2 \<noteq> []" by (auto simp: lockstep_def)
  with h2 nc have r: "restart g2 = g2\<lparr>objects := objects g2, gameState := gameState g0,
      history := [gameState g0], moveHistory := []\<rparr>"
    by (simp add: restart_def GameState_clone_no_cards)
  from h1 h2 r assms(3,4) show ?thesis by simp
qed

theorem restart_restores_pre_init_witness:
  "history warGame0 = [] \<and> moveHistory warGame0 = []
   \<and> customState (gameState warGame0) = emptyCustomState
   \<and> list_all (\<lambda>p. hand p = []) (players (gameState warGame0))
   \<and> start WarRules noShuffle warGame0 = Inr warGame1
   \<and> run WarRules warGame1 [PlayMove ''a'' (JStr ''play'')] = Inr ([True], warGame2)
   \<and> history warGame1 = [gameState warGame0] \<and> history warGame2 ! 0 = gameState warGame0
   \<and> gameState (restart warGame2) = gameState warGame0
   \<and> deck (gameState (restart warGame2)) = deck (gameState warGame0)
   \<and> list_all (\<lambda>p. hand p = []) (players (gameState (restart warGame2)))
   \<and> customState (gameState (restart warGame2)) = emptyCustomState
   \<and> history (restart warGame2) = [gameState warGame0]
   \<and> moveHistory (restart warGame2) = []"
proof -
  have h1: "history warGame0 = []" and h2: "moveHistory warGame0 = []"
    and h3: "customState (gameState warGame0) = emptyCustomState"
    and h4: "list_all (\<lambda>p. hand p = []) (players (gameState warGame0))"
    by (simp_all add: warGame0_eq warState0_def)
  have h6: "run WarRules warGame1 [PlayMove ''a'' (JStr ''play'')] = Inr ([True], warGame2)"
    by (simp add: step_def war_move_a)
  from restart_restores_pre_init[OF h1 h2 h3 h4 war_start h6] h1 h2 h3 h4 war_start h6
  show ?thesis by blast
qed

section \<open>Undo\<close>

text \<open>
  \<^verbatim>\<open>playMove\<close> pushes the snapshot of the state before the move, so the last entry of the
  history is already the state \<^verbatim>\<open>undo()\<close> should return to.  \<^verbatim>\<open>undo()\<close> pops that entry
  and restores the entry below it: the state before the move before.
\<close>

lemma undo_after_accepted_move:
  assumes "history g \<noteq> []" and "playMove rules g playerId move = Inr (True, g')"
  shows "fst (undo g') = True \<and> history (snd (undo g')) = history g
       \<and> moveHistory (snd (undo g')) = moveHistory g
       \<and> gameState (snd (undo g')) = snd (GameState_clone (objects g') (last (history g)))"
proof -
  from playMove_accepted[OF assms(2)] assms(1)
  have "1 < length (history g')" "butlast (history g') = history g"
    "butlast (moveHistory g') = moveHistory g"
    by (cases "history g"; simp)+
  with assms(1) show ?thesis
    by (simp add: undo_def Let_def last_conv_nth split: prod.splits)
qed

text \<open>
  So for a new engine the first accepted move followed by \<^verbatim>\<open>undo()\<close> leaves the state
  before \<^verbatim>\<open>start()\<close> as the live state, whatever the rules and the deck.
\<close>

lemma undo_after_first_move:
  assumes "history g0 = []" and "customState (gameState g0) = emptyCustomState"
    and "start rules rnd g0 = Inr g1"
    and "playMove rules g1 playerId move = Inr (True, g2)"
  shows "fst (undo g2) = True \<and> gameState (snd (undo g2)) = gameState g0"
proof -
  from assms(2) have nc: "cardsInPlay (customState (gameState g0)) = None"
    by (simp add: emptyCustomState_def)
  from start_fields[OF assms(3)] assms(1) nc have h1: "history g1 = [gameState g0]"
    by (simp add: GameState_clone_no_cards)
  then have "history g1 \<noteq> []" by simp
  from undo_after_accepted_move[OF this assms(4)] h1 nc show ?thesis
    by (simp add: GameState_clone_no_cards)
qed

text \<open>
  C1.  In the example War game one accepted move followed by \<^verbatim>\<open>undo()\<close> does not give the
  state after zero moves (the dealt hands of \<open>warGame1\<close>): the live state is the state before
  \<^verbatim>\<open>start()\<close>, with the four cards back in the deck and both hands empty.  The history has
  one entry and the move log none, as claimed.
\<close>

theorem undo_after_first_move_restores_pre_init_state:
  "start WarRules noShuffle warGame0 = Inr warGame1
   \<and> playMove WarRules warGame1 ''a'' (JStr ''play'') = Inr (True, warGame2)
   \<and> undo warGame2 = (True, warGame3)
   \<and> gameState warGame3 = gameState warGame0
   \<and> deck (gameState warGame3) = [0, 1, 2, 3]
   \<and> map hand (players (gameState warGame3)) = [[], []]
   \<and> map hand (players (gameState warGame1)) = [[0, 1], [2, 3]]
   \<and> deref (objects warGame3) (gameState warGame3) \<noteq> deref (objects warGame1) (gameState warGame1)
   \<and> length (history warGame3) = 1 \<and> length (moveHistory warGame3) = 0"
proof -
  have a: "gameState warGame3 = gameState warGame0"
    by (simp add: warGame3_def warGame0_eq)
  have b: "deck (gameState warGame3) = [0, 1, 2, 3]"
    and c: "map hand (players (gameState warGame3)) = [[], []]"
    and d: "length (history warGame3) = 1" and e: "length (moveHistory warGame3) = 0"
    by (simp_all add: warGame3_def warState0_def)
  have f: "map hand (players (gameState warGame1)) = [[0, 1], [2, 3]]"
    by (simp add: warGame1_def warState1_def)
  have "deck (deref (objects warGame3) (gameState warGame3))
          \<noteq> deck (deref (objects warGame1) (gameState warGame1))"
    by (simp add: warGame3_def warGame1_def warState0_def warState1_def deref_def)
  then have g: "deref (objects warGame3) (gameState warGame3)
          \<noteq> deref (objects warGame1) (gameState warGame1)"
    by auto
  from war_start war_move_a war_undo a b c d e f g show ?thesis by blast
qed

section \<open>Clone independence\<close>

text \<open>
  \<^verbatim>\<open>GameState.clone\<close> makes new \<^verbatim>\<open>Deck\<close>, \<^verbatim>\<open>Hand\<close> and \<^verbatim>\<open>Player\<close> objects, so adding or removing
  cards in the clone leaves the original as it is (in the model: the lists of the clone are
  values of their own).  The elements of the new arrays, however, are the card objects of
  the original: for every state, the deck, the discard pile and the hands of the clone hold
  the references the original holds, and the store is extended, never copied.
\<close>

lemma GameState_clone_same_references:
  "deck (snd (GameState_clone h s)) = deck s
   \<and> discardPile (snd (GameState_clone h s)) = discardPile s
   \<and> map hand (players (snd (GameState_clone h s))) = map hand (players s)
   \<and> take (length h) (fst (GameState_clone h s)) = h"
  by (simp add: GameState_clone_def json_clone_def json_copy_cards_def map_Player_clone
      split: option.splits)

text \<open>
  C2.  The clone of the dealt example state is made of the same card references, so
  setting \<^verbatim>\<open>isFaceUp\<close> on the first card of the first hand of the clone sets it on the first
  card of the first hand of the original.
\<close>

theorem clone_shares_card_objects:
  "GameState_clone warCards warState1 = (warCards, warState1)
   \<and> isFaceUp (hand (players (deref warCards warState1) ! 0) ! 0) = False
   \<and> isFaceUp (hand (players (deref (setFaceUp (hand (players (snd (GameState_clone warCards warState1)) ! 0) ! 0) warCards) warState1) ! 0) ! 0) = True"
  by (simp add: GameState_clone_Nil warState1_def emptyCustomState_def deref_def deref_player_def
      setFaceUp_def warCards_def newCard_def)

section \<open>War: ties\<close>

lemma card_id_setFaceUp: "card_id (setFaceUp r h ! x) = card_id (h ! x)"
  by (cases "r < length h") (simp_all add: setFaceUp_def nth_list_update list_update_beyond)

lemma rank_setFaceUp: "WarRules_getCardRank (setFaceUp r h ! x) = WarRules_getCardRank (h ! x)"
  by (simp add: WarRules_getCardRank_def rankOf_def card_id_setFaceUp)

lemma removeCard_head: "removeCard h (card_id (h ! c)) (c # rest) = (Some c, rest)"
  by (simp add: removeCard_def)

lemma takeFirstCard_Cons:
  "hand (players s ! i) = c # rest \<Longrightarrow> takeFirstCard h s i = Inr (c, setHand i rest s)"
  by (simp add: takeFirstCard_def removeCard_head setHand_def)

lemma rank_tieCards:
  "WarRules_getCardRank (tieCards ! 0) = 5" "WarRules_getCardRank (tieCards ! 9) = 5"
  "WarRules_getCardRank (tieCards ! 4) = 9" "WarRules_getCardRank (tieCards ! 13) = 9"
  by (simp_all add: tieCards_def newCard_def WarRules_getCardRank_def rankOf_def rankMap_def)

lemma commitWarCards_3:
  assumes "hand (players s ! pi) = a # b # c # prest" and "hand (players s ! oi) = d # e # f # orest"
    and "pi \<noteq> oi" and "pi < length (players s)" and "oi < length (players s)"
  shows "commitWarCards 3 h s pi oi cip
           = Inr (setHand oi orest (setHand pi prest s), cip @ [a, d, b, e, c, f])"
  using assms
  by (simp add: numeral_3_eq_3 takeFirstCard_Cons setHand_def list_update_swap[of pi oi])

lemma war_tie1:
  "WarRules_applyMove tieCards tieState0 0 (JStr ''play'')
     = Inr (tieCards1, tieState1\<lparr>currentPlayerId := ''a''\<rparr>)"
  by (simp add: WarRules_applyMove_def tieState0_def getPlayerById_def takeFirstCard_Cons
      setHand_def Let_def rank_setFaceUp rank_tieCards commitWarCards_3 inPlay_def
      emptyCustomState_def tieCards1_def tieState1_def)

lemma war_tie2:
  "WarRules_applyMove tieCards1 tieState1 1 (JStr ''play'') = Inr (tieCards2, tieState2)"
  by (simp add: WarRules_applyMove_def tieState1_def getPlayerById_def takeFirstCard_Cons
      setHand_def Let_def rank_setFaceUp rank_tieCards commitWarCards_3 inPlay_def
      emptyCustomState_def tieCards1_def tieCards2_def tieState2_def)

lemma distinct_tieCards: "distinct (map card_id tieCards)"
  by (simp add: tieCards_def newCard_def)

lemma card_id_tieCards:
  "map (\<lambda>r. card_id (tieCards ! r)) [0, 1, 2, 3, 4, 5, 6, 7, 8, 9, 10, 11, 12, 13, 14, 15, 16, 17]
     = map card_id tieCards"
  by (simp add: tieCards_def)

text \<open>
  C10.  In a War state (two players with different ids), when the two first cards have the
  same rank and the hands left after the reveal have the same size, below four, the
  opponent of the acting player receives the pile (the cards in play before, then the two
  revealed cards); the acting player's hand is what was left after the reveal.
\<close>

theorem war_tie_equal_hands:
  assumes "players s = [p0, p1]" and "player_id p0 \<noteq> player_id p1" and "pi < 2"
    and "hand ([p0, p1] ! pi) = pc # prest" and "hand ([p0, p1] ! (1 - pi)) = oc # orest"
    and "WarRules_getCardRank (h ! pc) = WarRules_getCardRank (h ! oc)"
    and "length prest = length orest" and "length prest < 4"
  shows "\<exists>h' s'. WarRules_applyMove h s pi (JStr ''play'') = Inr (h', s')
       \<and> hand (players s' ! (1 - pi)) = orest @ inPlay s @ [pc, oc]
       \<and> hand (players s' ! pi) = prest
       \<and> roundWinner (customState s') = Some (Some (player_id ([p0, p1] ! (1 - pi))))
       \<and> inPlay s' = []"
proof -
  from assms(3) consider "pi = 0" | "pi = 1" by linarith
  then show ?thesis
  proof cases
    case 1
    with assms show ?thesis
      by (simp add: WarRules_applyMove_def getPlayerById_def takeFirstCard_Cons setHand_def
          Let_def rank_setFaceUp withHeap_def handleRoundWin_def addCards_def
          setScoreToHandSize_def inPlay_def)
  next
    case 2
    with assms show ?thesis
      by (simp add: WarRules_applyMove_def getPlayerById_def takeFirstCard_Cons setHand_def
          Let_def rank_setFaceUp withHeap_def handleRoundWin_def addCards_def
          setScoreToHandSize_def inPlay_def)
  qed
qed

theorem war_tie_equal_hands_witness:
  "(\<exists>h' s'. WarRules_applyMove tieCards (tieShortState\<lparr>players := [
        \<lparr>player_id = ''a'', player_name = ''Ann'', hand = [0, 1], score = 2\<rparr>,
        \<lparr>player_id = ''b'', player_name = ''Bob'', hand = [9, 10], score = 2\<rparr>]\<rparr>) 0 (JStr ''play'')
          = Inr (h', s')
       \<and> hand (players s' ! 1) = [10, 0, 9] \<and> hand (players s' ! 0) = [1]
       \<and> roundWinner (customState s') = Some (Some ''b'') \<and> inPlay s' = [])"
proof -
  let ?a = "\<lparr>player_id = ''a'', player_name = ''Ann'', hand = [0, 1], score = 2\<rparr> :: ref Player"
  let ?b = "\<lparr>player_id = ''b'', player_name = ''Bob'', hand = [9, 10], score = 2\<rparr> :: ref Player"
  let ?s = "tieShortState\<lparr>players := [?a, ?b]\<rparr>"
  have p: "players ?s = [?a, ?b]" by simp
  have ne: "player_id ?a \<noteq> player_id ?b" by simp
  have ha: "hand ([?a, ?b] ! 0) = 0 # [1]" and hb: "hand ([?a, ?b] ! (1 - 0)) = 9 # [10]"
    by simp_all
  have rk: "WarRules_getCardRank (tieCards ! 0) = WarRules_getCardRank (tieCards ! 9)"
    by (simp add: rank_tieCards)
  have i: "inPlay ?s = []"
    by (simp add: tieShortState_def inPlay_def emptyCustomState_def)
  from war_tie_equal_hands[OF p ne _ ha hb rk] i show ?thesis by simp
qed

text \<open>
  C7 as stated fails when cards are already in play: the second tie in a row leaves sixteen
  cards in \<^verbatim>\<open>cardsInPlay\<close>, not eight.
\<close>

theorem war_second_tie_counterexample:
  "WarRules_applyMove tieCards tieState0 0 (JStr ''play'')
     = Inr (tieCards1, tieState1\<lparr>currentPlayerId := ''a''\<rparr>)
   \<and> WarRules_nextTurn (tieState1\<lparr>currentPlayerId := ''a''\<rparr>) = Inr tieState1
   \<and> map hand (players tieState1) = [[4, 5, 6, 7, 8], [13, 14, 15, 16, 17]]
   \<and> WarRules_getCardRank (tieCards1 ! 13) = WarRules_getCardRank (tieCards1 ! 4)
   \<and> WarRules_applyMove tieCards1 tieState1 1 (JStr ''play'') = Inr (tieCards2, tieState2)
   \<and> warMode (customState tieState2) = Some True
   \<and> length (inPlay tieState2) = 16
   \<and> length (inPlay tieState2) \<noteq> 8"
proof -
  have a: "WarRules_nextTurn (tieState1\<lparr>currentPlayerId := ''a''\<rparr>) = Inr tieState1"
    by (simp add: WarRules_nextTurn_def WarRules_getNextPlayerId_def tieState1_def)
  have b: "map hand (players tieState1) = [[4, 5, 6, 7, 8], [13, 14, 15, 16, 17]]"
    by (simp add: tieState1_def)
  have c: "WarRules_getCardRank (tieCards1 ! 13) = WarRules_getCardRank (tieCards1 ! 4)"
    by (simp add: tieCards1_def rank_setFaceUp rank_tieCards)
  have d: "warMode (customState tieState2) = Some True" "length (inPlay tieState2) = 16"
    "length (inPlay tieState2) \<noteq> 8"
    by (simp_all add: tieState2_def inPlay_def)
  from war_tie1 war_tie2 a b c d show ?thesis by blast
qed

lemma war_tie_ample:
  assumes "players s = [p0, p1]" and "player_id p0 \<noteq> player_id p1" and "pi < 2"
    and "hand ([p0, p1] ! pi) = pc # a # b # c # prest"
    and "hand ([p0, p1] ! (1 - pi)) = oc # d # e # f # orest"
    and "WarRules_getCardRank (h ! pc) = WarRules_getCardRank (h ! oc)"
    and "prest \<noteq> []" and "orest \<noteq> []"
  shows "\<exists>s'. WarRules_applyMove h s pi (JStr ''play'') = Inr (setFaceUp oc (setFaceUp pc h), s')
       \<and> warMode (customState s') = Some True
       \<and> cardsInPlay (customState s') = Some (inPlay s @ [pc, oc, a, d, b, e, c, f])
       \<and> hand (players s' ! pi) = prest \<and> hand (players s' ! (1 - pi)) = orest"
proof -
  from assms(7,8) have len: "\<not> length prest = 0" "\<not> length orest = 0" by simp_all
  from assms(3) consider "pi = 0" | "pi = 1" by linarith
  then show ?thesis
  proof cases
    case 1
    with assms len show ?thesis
      by (simp add: WarRules_applyMove_def getPlayerById_def takeFirstCard_Cons setHand_def
          Let_def rank_setFaceUp commitWarCards_3 inPlay_def)
  next
    case 2
    with assms len show ?thesis
      by (simp add: WarRules_applyMove_def getPlayerById_def takeFirstCard_Cons setHand_def
          Let_def rank_setFaceUp commitWarCards_3 inPlay_def)
  qed
qed

lemma war_tie_short:
  assumes "players s = [p0, p1]" and "player_id p0 \<noteq> player_id p1" and "pi < 2"
    and "hand ([p0, p1] ! pi) = pc # prest" and "hand ([p0, p1] ! (1 - pi)) = oc # orest"
    and "WarRules_getCardRank (h ! pc) = WarRules_getCardRank (h ! oc)"
    and "length prest < 4 \<or> length orest < 4"
  shows "\<exists>s'. WarRules_applyMove h s pi (JStr ''play'') = Inr (setFaceUp oc (setFaceUp pc h), s')
       \<and> inPlay s' = []
       \<and> (length orest < length prest \<longrightarrow>
            hand (players s' ! pi) = prest @ inPlay s @ [pc, oc]
            \<and> hand (players s' ! (1 - pi)) = orest)
       \<and> (\<not> length orest < length prest \<longrightarrow>
            hand (players s' ! (1 - pi)) = orest @ inPlay s @ [pc, oc]
            \<and> hand (players s' ! pi) = prest)"
proof -
  from assms(3) consider "pi = 0" | "pi = 1" by linarith
  then show ?thesis
  proof cases
    case 1
    with assms show ?thesis
      by (auto simp: WarRules_applyMove_def getPlayerById_def takeFirstCard_Cons setHand_def
          Let_def rank_setFaceUp withHeap_def handleRoundWin_def addCards_def
          setScoreToHandSize_def inPlay_def)
  next
    case 2
    with assms show ?thesis
      by (auto simp: WarRules_applyMove_def getPlayerById_def takeFirstCard_Cons setHand_def
          Let_def rank_setFaceUp withHeap_def handleRoundWin_def addCards_def
          setScoreToHandSize_def inPlay_def)
  qed
qed

lemma length_ge_4_obtain:
  assumes "4 \<le> length xs"
  obtains a b c rest where "xs = a # b # c # rest" "rest \<noteq> []"
proof -
  from assms obtain a xs1 where 1: "xs = a # xs1" by (cases xs) auto
  with assms obtain b xs2 where 2: "xs1 = b # xs2" by (cases xs1) auto
  with 1 assms obtain c xs3 where 3: "xs2 = c # xs3" by (cases xs2) auto
  with 1 2 assms have "xs3 \<noteq> []" by auto
  with 1 2 3 that show thesis by blast
qed

text \<open>
  C7, amended.  In a War state (two players with different ids, no card id twice in the
  two hands) where the first cards of the hands have the same rank: if each hand has at
  least four cards left after the reveal, \<^verbatim>\<open>applyMove\<close> leaves \<^verbatim>\<open>warMode\<close> true and
  \<^verbatim>\<open>cardsInPlay\<close> holding the cards that were in play before followed by eight more (the two
  revealed cards and three from each hand), none of these eight in either hand; if a hand
  has fewer than four cards left, the player with more cards left receives the whole pile.
\<close>

theorem war_tie_resolution:
  assumes "players s = [p0, p1]" and "player_id p0 \<noteq> player_id p1" and "pi < 2"
    and "hand ([p0, p1] ! pi) = pc # prest" and "hand ([p0, p1] ! (1 - pi)) = oc # orest"
    and "WarRules_getCardRank (h ! pc) = WarRules_getCardRank (h ! oc)"
    and "distinct (map (\<lambda>r. card_id (h ! r)) (pc # prest @ oc # orest))"
  shows "\<exists>h' s'. WarRules_applyMove h s pi (JStr ''play'') = Inr (h', s')
       \<and> (4 \<le> length prest \<and> 4 \<le> length orest \<longrightarrow>
            warMode (customState s') = Some True
            \<and> cardsInPlay (customState s')
                = Some (inPlay s @ [pc, oc, prest ! 0, orest ! 0, prest ! 1, orest ! 1,
                                    prest ! 2, orest ! 2])
            \<and> hand (players s' ! pi) = drop 3 prest
            \<and> hand (players s' ! (1 - pi)) = drop 3 orest
            \<and> set (map (\<lambda>r. card_id (h' ! r))
                   [pc, oc, prest ! 0, orest ! 0, prest ! 1, orest ! 1, prest ! 2, orest ! 2])
                \<inter> set (map (\<lambda>r. card_id (h' ! r))
                     (hand (players s' ! pi) @ hand (players s' ! (1 - pi)))) = {})
       \<and> ((length prest < 4 \<or> length orest < 4) \<and> length orest < length prest \<longrightarrow>
            hand (players s' ! pi) = prest @ inPlay s @ [pc, oc]
            \<and> hand (players s' ! (1 - pi)) = orest \<and> inPlay s' = [])
       \<and> ((length prest < 4 \<or> length orest < 4) \<and> length prest < length orest \<longrightarrow>
            hand (players s' ! (1 - pi)) = orest @ inPlay s @ [pc, oc]
            \<and> hand (players s' ! pi) = prest \<and> inPlay s' = [])"
proof (cases "4 \<le> length prest \<and> 4 \<le> length orest")
  case True
  then obtain a b c prest' where p: "prest = a # b # c # prest'" "prest' \<noteq> []"
    by (auto elim: length_ge_4_obtain)
  from True obtain d e f orest' where o: "orest = d # e # f # orest'" "orest' \<noteq> []"
    by (auto elim: length_ge_4_obtain)
  from war_tie_ample[OF assms(1-3) assms(4)[unfolded p(1)] assms(5)[unfolded o(1)] assms(6) p(2) o(2)]
  obtain s' where r: "WarRules_applyMove h s pi (JStr ''play'') = Inr (setFaceUp oc (setFaceUp pc h), s')"
    "warMode (customState s') = Some True"
    "cardsInPlay (customState s') = Some (inPlay s @ [pc, oc, a, d, b, e, c, f])"
    "hand (players s' ! pi) = prest'" "hand (players s' ! (1 - pi)) = orest'"
    by blast
  from assms(7) have
    "set (map (\<lambda>r. card_id (h ! r)) [pc, oc, a, d, b, e, c, f])
       \<inter> set (map (\<lambda>r. card_id (h ! r)) (prest' @ orest')) = {}"
    unfolding p(1) o(1) by auto
  with r True p(2) o(2) show ?thesis
    by (simp add: p(1) o(1) card_id_setFaceUp)
next
  case False
  then have sh: "length prest < 4 \<or> length orest < 4" by auto
  from war_tie_short[OF assms(1-6) sh] sh show ?thesis by auto
qed

theorem war_tie_resolution_witness:
  "(\<exists>h' s'. WarRules_applyMove tieCards tieState0 0 (JStr ''play'') = Inr (h', s')
       \<and> warMode (customState s') = Some True
       \<and> cardsInPlay (customState s') = Some [0, 9, 1, 10, 2, 11, 3, 12]
       \<and> hand (players s' ! 0) = [4, 5, 6, 7, 8] \<and> hand (players s' ! 1) = [13, 14, 15, 16, 17])
   \<and> (\<exists>h' s'. WarRules_applyMove tieCards tieShortState 0 (JStr ''play'') = Inr (h', s')
       \<and> hand (players s' ! 0) = [1, 2, 0, 9] \<and> hand (players s' ! 1) = [] \<and> inPlay s' = [])
   \<and> (\<exists>h' s'. WarRules_applyMove tieCards tieShortState 1 (JStr ''play'') = Inr (h', s')
       \<and> hand (players s' ! 0) = [1, 2, 9, 0] \<and> hand (players s' ! 1) = [] \<and> inPlay s' = [])"
proof -
  let ?a = "\<lparr>player_id = ''a'', player_name = ''Ann'', hand = [0, 1, 2, 3, 4, 5, 6, 7, 8], score = 0\<rparr> :: ref Player"
  let ?b = "\<lparr>player_id = ''b'', player_name = ''Bob'', hand = [9, 10, 11, 12, 13, 14, 15, 16, 17], score = 0\<rparr> :: ref Player"
  let ?c = "\<lparr>player_id = ''a'', player_name = ''Ann'', hand = [0, 1, 2], score = 3\<rparr> :: ref Player"
  let ?d = "\<lparr>player_id = ''b'', player_name = ''Bob'', hand = [9], score = 1\<rparr> :: ref Player"
  have ne: "player_id ?a \<noteq> player_id ?b" "player_id ?c \<noteq> player_id ?d" by simp_all
  have rk: "WarRules_getCardRank (tieCards ! 0) = WarRules_getCardRank (tieCards ! 9)"
    "WarRules_getCardRank (tieCards ! 9) = WarRules_getCardRank (tieCards ! 0)"
    by (simp_all add: rank_tieCards)
  have p0: "players tieState0 = [?a, ?b]" by (simp add: tieState0_def)
  have ps: "players tieShortState = [?c, ?d]" by (simp add: tieShortState_def)
  have ha: "hand ([?a, ?b] ! 0) = 0 # [1, 2, 3, 4, 5, 6, 7, 8]"
    and hb: "hand ([?a, ?b] ! (1 - 0)) = 9 # [10, 11, 12, 13, 14, 15, 16, 17]" by simp_all
  have d0: "distinct (map (\<lambda>r. card_id (tieCards ! r))
              (0 # [1, 2, 3, 4, 5, 6, 7, 8] @ 9 # [10, 11, 12, 13, 14, 15, 16, 17]))"
    using distinct_tieCards card_id_tieCards by simp
  have i0: "inPlay tieState0 = []" and i1: "inPlay tieShortState = []"
    by (simp_all add: tieState0_def tieShortState_def inPlay_def emptyCustomState_def)
  from war_tie_resolution[OF p0 ne(1) _ ha hb rk(1) d0] i0
  have 1: "\<exists>h' s'. WarRules_applyMove tieCards tieState0 0 (JStr ''play'') = Inr (h', s')
       \<and> warMode (customState s') = Some True
       \<and> cardsInPlay (customState s') = Some [0, 9, 1, 10, 2, 11, 3, 12]
       \<and> hand (players s' ! 0) = [4, 5, 6, 7, 8] \<and> hand (players s' ! 1) = [13, 14, 15, 16, 17]"
    by simp blast
  have hc: "hand ([?c, ?d] ! 0) = 0 # [1, 2]" and hd: "hand ([?c, ?d] ! (1 - 0)) = 9 # []"
    by simp_all
  have d1: "distinct (map (\<lambda>r. card_id (tieCards ! r)) (0 # [1, 2] @ 9 # []))"
    by (simp add: tieCards_def newCard_def)
  from war_tie_resolution[OF ps ne(2) _ hc hd rk(1) d1] i1
  have 2: "\<exists>h' s'. WarRules_applyMove tieCards tieShortState 0 (JStr ''play'') = Inr (h', s')
       \<and> hand (players s' ! 0) = [1, 2, 0, 9] \<and> hand (players s' ! 1) = [] \<and> inPlay s' = []"
    by simp
  have hc': "hand ([?c, ?d] ! 1) = 9 # []" and hd': "hand ([?c, ?d] ! (1 - 1)) = 0 # [1, 2]"
    by simp_all
  have d2: "distinct (map (\<lambda>r. card_id (tieCards ! r)) (9 # [] @ 0 # [1, 2]))"
    by (simp add: tieCards_def newCard_def)
  from war_tie_resolution[OF ps ne(2) _ hc' hd' rk(2) d2] i1
  have 3: "\<exists>h' s'. WarRules_applyMove tieCards tieShortState 1 (JStr ''play'') = Inr (h', s')
       \<and> hand (players s' ! 0) = [1, 2, 9, 0] \<and> hand (players s' ! 1) = [] \<and> inPlay s' = []"
    by simp
  from 1 2 3 show ?thesis by blast
qed

section \<open>Go Fish: grouping and books\<close>

lemma map_of_groupInsert:
  "map_of (groupInsert k v g) k' =
     (if k' = k then Some ((case map_of g k of None \<Rightarrow> [] | Some vs \<Rightarrow> vs) @ [v])
      else map_of g k')"
  by (induction g) auto

lemma keys_groupInsert:
  "map fst (groupInsert k v g)
     = (if k \<in> set (map fst g) then map fst g else map fst g @ [k])"
  by (induction g) (fastforce+)

lemma distinct_groupInsert:
  "distinct (map fst g) \<Longrightarrow> distinct (map fst (groupInsert k v g))"
  by (simp add: keys_groupInsert)

lemma grouped_step:
  assumes "grouped f xs g"
  shows "grouped f (xs @ [c]) (groupInsert (f c) c g)"
  using assms
  by (auto simp: grouped_def distinct_groupInsert map_of_groupInsert)

lemma grouped_foldl:
  assumes "grouped f xs g"
  shows "grouped f (xs @ cs) (foldl (\<lambda>result c. groupInsert (f c) c result) g cs)"
  using assms
proof (induction cs arbitrary: xs g)
  case Nil
  then show ?case by simp
next
  case (Cons c cs)
  from Cons.IH[OF grouped_step[OF Cons.prems, of c]] show ?case by simp
qed

lemma grouped_groupCardsByRank:
  "grouped (\<lambda>c. rankOf (h ! c)) cs (groupCardsByRank h cs)"
  using grouped_foldl[of "\<lambda>c. rankOf (h ! c)" "[]" "[]" cs]
  by (simp add: groupCardsByRank_def grouped_def)

lemma grouped_entry:
  assumes "grouped f xs g" and "(k, vs) \<in> set g"
  shows "vs = filter (\<lambda>x. f x = k) xs \<and> vs \<noteq> []"
proof -
  from assms(1) have "distinct (map fst g)" by (simp add: grouped_def)
  with assms(2) have "map_of g k = Some vs" by simp
  with assms(1) show ?thesis by (auto simp: grouped_def split: if_splits)
qed

lemma grouped_member:
  assumes "grouped f xs g" and "x \<in> set xs"
  shows "(f x, filter (\<lambda>y. f y = f x) xs) \<in> set g"
proof -
  from assms(2) have "filter (\<lambda>y. f y = f x) xs \<noteq> []"
    by (auto simp: filter_empty_conv)
  with assms(1) have "map_of g (f x) = Some (filter (\<lambda>y. f y = f x) xs)"
    by (simp add: grouped_def)
  then show ?thesis by (rule map_of_SomeD)
qed

lemma mset_objectEntries: "mset (objectEntries kvs) = mset kvs"
  by (simp add: objectEntries_def)

lemma set_objectEntries: "set (objectEntries kvs) = set kvs"
  using mset_objectEntries[of kvs] by (metis set_mset_mset)

lemma same_id_same_rank: "card_id c = card_id c' \<Longrightarrow> rankOf c = rankOf c'"
  by (simp add: rankOf_def)

lemma id_in_group_iff:
  assumes "c \<in> set hand0"
  shows "card_id (h ! c) \<in> set (map (\<lambda>x. card_id (h ! x)) (filter (\<lambda>x. rankOf (h ! x) = k) hand0))
           \<longleftrightarrow> rankOf (h ! c) = k"
  using assms by (auto dest: same_id_same_rank)

lemma removeCards_group:
  "snd (removeCards h (map (\<lambda>x. card_id (h ! x)) (filter (\<lambda>x. rankOf (h ! x) = k) hand0))
         (filter Q hand0))
     = filter (\<lambda>c. Q c \<and> rankOf (h ! c) \<noteq> k) hand0"
proof -
  have "filter (\<lambda>r. card_id (h ! r)
            \<notin> set (map (\<lambda>x. card_id (h ! x)) (filter (\<lambda>x. rankOf (h ! x) = k) hand0)))
          (filter Q hand0)
        = filter (\<lambda>c. Q c \<and> rankOf (h ! c) \<noteq> k) hand0"
    unfolding filter_filter
    by (rule filter_cong[OF refl]) (use id_in_group_iff in blast)
  then show ?thesis by (simp add: removeCards_def)
qed

lemma bookStep_frame:
  assumes "bookStep h pi (s, b) e = (s', b')"
  shows "deck s' = deck s \<and> discardPile s' = discardPile s
       \<and> currentPlayerId s' = currentPlayerId s \<and> round s' = round s
       \<and> customState s' = customState s \<and> length (players s') = length (players s)
       \<and> (\<forall>j. j \<noteq> pi \<longrightarrow> players s' ! j = players s ! j)
       \<and> player_id (players s' ! pi) = player_id (players s ! pi)
       \<and> player_name (players s' ! pi) = player_name (players s ! pi)"
proof (cases "pi < length (players s)")
  case True
  with assms show ?thesis
    by (cases e) (auto simp: bookStep_def setHand_def Let_def split: if_splits)
next
  case False
  with assms show ?thesis
    by (cases e) (auto simp: bookStep_def setHand_def Let_def list_update_beyond split: if_splits)
qed

lemma foldl_bookStep_frame:
  assumes "foldl (bookStep h pi) (s, b) es = (s', b')"
  shows "deck s' = deck s \<and> discardPile s' = discardPile s
       \<and> currentPlayerId s' = currentPlayerId s \<and> round s' = round s
       \<and> customState s' = customState s \<and> length (players s') = length (players s)
       \<and> (\<forall>j. j \<noteq> pi \<longrightarrow> players s' ! j = players s ! j)
       \<and> player_id (players s' ! pi) = player_id (players s ! pi)
       \<and> player_name (players s' ! pi) = player_name (players s ! pi)"
  using assms
proof (induction es arbitrary: s b)
  case Nil
  then show ?case by simp
next
  case (Cons e es)
  obtain s1 b1 where st: "bookStep h pi (s, b) e = (s1, b1)"
    by (cases "bookStep h pi (s, b) e")
  with Cons.prems have "foldl (bookStep h pi) (s1, b1) es = (s', b')" by simp
  from Cons.IH[OF this] bookStep_frame[OF st] show ?case by simp
qed

lemma bookStep_hand:
  assumes "pi < length (players s)"
    and "cs = filter (\<lambda>x. rankOf (h ! x) = k) hand0"
    and "hand (players s ! pi) = filter Q hand0"
    and "bookStep h pi (s, b) (k, cs) = (s', b')"
  shows "hand (players s' ! pi)
           = filter (\<lambda>c. Q c \<and> \<not> (length cs = 4 \<and> rankOf (h ! c) = k)) hand0"
proof (cases "length cs = 4")
  case True
  with assms(1,4) have "hand (players s' ! pi)
      = snd (removeCards h (map (\<lambda>c. card_id (h ! c)) cs) (hand (players s ! pi)))"
    by (auto simp: bookStep_def setHand_def Let_def)
  with True assms(2,3) show ?thesis by (simp add: removeCards_group)
next
  case False
  with assms(3,4) show ?thesis by (simp add: bookStep_def)
qed

lemma foldl_bookStep_hand:
  assumes "pi < length (players s)"
    and "\<forall>e\<in>set es. snd e = filter (\<lambda>x. rankOf (h ! x) = fst e) hand0"
    and "hand (players s ! pi) = filter Q hand0"
    and "foldl (bookStep h pi) (s, b) es = (s', b')"
  shows "hand (players s' ! pi)
           = filter (\<lambda>c. Q c \<and> \<not> (\<exists>e\<in>set es. length (snd e) = 4 \<and> rankOf (h ! c) = fst e)) hand0"
  using assms
proof (induction es arbitrary: s b Q)
  case Nil
  then show ?case by simp
next
  case (Cons e es)
  obtain k cs where e: "e = (k, cs)" by (cases e)
  obtain s1 b1 where st: "bookStep h pi (s, b) (k, cs) = (s1, b1)"
    by (cases "bookStep h pi (s, b) (k, cs)")
  from Cons.prems(2) e have cs: "cs = filter (\<lambda>x. rankOf (h ! x) = k) hand0" by simp
  from bookStep_hand[OF Cons.prems(1) cs Cons.prems(3) st]
  have h1: "hand (players s1 ! pi)
      = filter (\<lambda>c. Q c \<and> \<not> (length cs = 4 \<and> rankOf (h ! c) = k)) hand0" .
  from bookStep_frame[OF st] Cons.prems(1) have l1: "pi < length (players s1)" by simp
  from Cons.prems(2) have r: "\<forall>e\<in>set es. snd e = filter (\<lambda>x. rankOf (h ! x) = fst e) hand0"
    by simp
  from Cons.prems(4) e st have f: "foldl (bookStep h pi) (s1, b1) es = (s', b')" by simp
  from Cons.IH[OF l1 r h1 f] e show ?case
    by (auto intro: filter_cong)
qed

lemma checkForBooks_frame:
  "deck (checkForBooks h s pi) = deck s \<and> discardPile (checkForBooks h s pi) = discardPile s
   \<and> currentPlayerId (checkForBooks h s pi) = currentPlayerId s
   \<and> round (checkForBooks h s pi) = round s
   \<and> (\<exists>b'. customState (checkForBooks h s pi) = (customState s)\<lparr>books := Some b'\<rparr>)
   \<and> length (players (checkForBooks h s pi)) = length (players s)
   \<and> (\<forall>j. j \<noteq> pi \<longrightarrow> players (checkForBooks h s pi) ! j = players s ! j)
   \<and> player_id (players (checkForBooks h s pi) ! pi) = player_id (players s ! pi)
   \<and> player_name (players (checkForBooks h s pi) ! pi) = player_name (players s ! pi)"
proof -
  let ?b1 = "if map_of (booksOf s) (player_id (players s ! pi)) = None
             then booksOf s @ [(player_id (players s ! pi), [])] else booksOf s"
  let ?es = "objectEntries (groupCardsByRank h (hand (players s ! pi)))"
  obtain s' b' where f: "foldl (bookStep h pi) (s, ?b1) ?es = (s', b')"
    by (cases "foldl (bookStep h pi) (s, ?b1) ?es")
  then have c: "checkForBooks h s pi = s'\<lparr>customState := (customState s')\<lparr>books := Some b'\<rparr>\<rparr>"
    by (simp add: checkForBooks_def Let_def)
  from foldl_bookStep_frame[OF f] show ?thesis unfolding c by auto
qed

lemma checkForBooks_hand:
  assumes "pi < length (players s)"
  shows "hand (players (checkForBooks h s pi) ! pi)
           = filter (\<lambda>c. length (sameRank h (hand (players s ! pi)) c) \<noteq> 4)
               (hand (players s ! pi))"
proof -
  let ?hand0 = "hand (players s ! pi)"
  let ?G = "groupCardsByRank h ?hand0"
  let ?b1 = "if map_of (booksOf s) (player_id (players s ! pi)) = None
             then booksOf s @ [(player_id (players s ! pi), [])] else booksOf s"
  have g: "grouped (\<lambda>c. rankOf (h ! c)) ?hand0 ?G" by (rule grouped_groupCardsByRank)
  obtain s' b' where f: "foldl (bookStep h pi) (s, ?b1) (objectEntries ?G) = (s', b')"
    by (cases "foldl (bookStep h pi) (s, ?b1) (objectEntries ?G)")
  then have c: "checkForBooks h s pi = s'\<lparr>customState := (customState s')\<lparr>books := Some b'\<rparr>\<rparr>"
    by (simp add: checkForBooks_def Let_def)
  have es: "\<forall>e\<in>set (objectEntries ?G). snd e = filter (\<lambda>x. rankOf (h ! x) = fst e) ?hand0"
    using grouped_entry[OF g] by (auto simp: set_objectEntries)
  have q: "?hand0 = filter (\<lambda>c. True) ?hand0" by simp
  from foldl_bookStep_hand[OF assms es q f]
  have "hand (players s' ! pi)
      = filter (\<lambda>c. \<not> (\<exists>e\<in>set ?G. length (snd e) = 4 \<and> rankOf (h ! c) = fst e)) ?hand0"
    by (simp add: set_objectEntries)
  also have "\<dots> = filter (\<lambda>c. length (sameRank h ?hand0 c) \<noteq> 4) ?hand0"
  proof (rule filter_cong[OF refl])
    fix c assume cin: "c \<in> set ?hand0"
    show "(\<not> (\<exists>e\<in>set ?G. length (snd e) = 4 \<and> rankOf (h ! c) = fst e))
            = (length (sameRank h ?hand0 c) \<noteq> 4)"
    proof -
      have "(\<exists>e\<in>set ?G. length (snd e) = 4 \<and> rankOf (h ! c) = fst e)
              \<longleftrightarrow> length (sameRank h ?hand0 c) = 4"
      proof
        assume "\<exists>e\<in>set ?G. length (snd e) = 4 \<and> rankOf (h ! c) = fst e"
        then obtain k vs where e: "(k, vs) \<in> set ?G" "length vs = 4" "rankOf (h ! c) = k"
          by auto
        from grouped_entry[OF g e(1)] e(2,3) show "length (sameRank h ?hand0 c) = 4"
          by (simp add: sameRank_def)
      next
        assume l: "length (sameRank h ?hand0 c) = 4"
        from grouped_member[OF g cin] l show
          "\<exists>e\<in>set ?G. length (snd e) = 4 \<and> rankOf (h ! c) = fst e"
          by (force simp: sameRank_def)
      qed
      then show ?thesis by simp
    qed
  qed
  finally show ?thesis by (simp add: c)
qed

section \<open>Card conservation: the steps of the rules\<close>







































subsection \<open>The example Go Fish game\<close>





lemma rank_fish:
  "rankOf (fishCards ! 0) = ''7''" "rankOf (fishCards ! 2) = ''7''" "rankOf (fishCards ! 4) = ''7''"
  "rankOf (fishCards ! 6) = ''2''" "rankOf (fishCards ! 8) = ''3''" "rankOf (fishCards ! 10) = ''4''"
  "rankOf (fishCards ! 12) = ''5''" "rankOf (fishCards ! 14) = ''7''"
  "rankOf (fishCards ! 1) = ''2''" "rankOf (fishCards ! 3) = ''3''" "rankOf (fishCards ! 5) = ''4''"
  "rankOf (fishCards ! 7) = ''5''" "rankOf (fishCards ! 9) = ''6''" "rankOf (fishCards ! 11) = ''8''"
  "rankOf (fishCards ! 13) = ''9''" "rankOf (fishCards ! 15) = ''3''"
  by (simp_all add: fishCards_def newCard_def rankOf_def)

lemma id_fish:
  "card_id (fishCards ! 0) = ''7-Hearts''" "card_id (fishCards ! 2) = ''7-Diamonds''"
  "card_id (fishCards ! 4) = ''7-Clubs''" "card_id (fishCards ! 6) = ''2-Hearts''"
  "card_id (fishCards ! 8) = ''3-Diamonds''" "card_id (fishCards ! 10) = ''4-Hearts''"
  "card_id (fishCards ! 12) = ''5-Hearts''" "card_id (fishCards ! 14) = ''7-Spades''"
  "card_name (fishCards ! 14) = ''7 of Spades''"
  by (simp_all add: fishCards_def newCard_def)

lemma group_fish:
  "groupCardsByRank fishCards [0, 2, 4, 6, 8, 10, 12, 14]
     = [(''7'', [0, 2, 4, 14]), (''2'', [6]), (''3'', [8]), (''4'', [10]), (''5'', [12])]"
  by (simp add: groupCardsByRank_def rank_fish)

lemma index_keys:
  "isIndexKey ''7''" "isIndexKey ''2''" "isIndexKey ''3''" "isIndexKey ''4''" "isIndexKey ''5''"
  "decimalValue ''7'' = 7" "decimalValue ''2'' = 2" "decimalValue ''3'' = 3"
  "decimalValue ''4'' = 4" "decimalValue ''5'' = 5"
  by (simp_all add: isIndexKey_def isDigit_def decimalValue_def digitValue_def)

lemma entries_fish:
  "objectEntries [(''7'', [0::nat, 2, 4, 14]), (''2'', [6]), (''3'', [8]), (''4'', [10]), (''5'', [12])]
     = [(''2'', [6]), (''3'', [8]), (''4'', [10]), (''5'', [12]), (''7'', [0, 2, 4, 14])]"
  by (simp add: objectEntries_def index_keys)

lemma fishDrawn_eq:
  "fishDrawn =
     \<lparr>deck = [15], discardPile = [],
      players = [\<lparr>player_id = ''a'', player_name = ''Ann'',
                  hand = [0, 2, 4, 6, 8, 10, 12, 14], score = 0\<rparr>,
                 \<lparr>player_id = ''b'', player_name = ''Bob'',
                  hand = [1, 3, 5, 7, 9, 11, 13], score = 0\<rparr>],
      currentPlayerId = ''a'', round = 1,
      customState = emptyCustomState
        \<lparr>books := Some [], lastAction := Some None, gameOver := Some False,
         anotherTurn := Some True\<rparr>\<rparr>"
  by (simp add: fishDrawn_def fishState1_def setAnotherTurn_def setHand_def addCards_def)

lemma fish_books:
  "checkForBooks fishCards fishDrawn 0 =
     \<lparr>deck = [15], discardPile = [],
      players = [\<lparr>player_id = ''a'', player_name = ''Ann'',
                  hand = [6, 8, 10, 12], score = 1\<rparr>,
                 \<lparr>player_id = ''b'', player_name = ''Bob'',
                  hand = [1, 3, 5, 7, 9, 11, 13], score = 0\<rparr>],
      currentPlayerId = ''a'', round = 1,
      customState = emptyCustomState
        \<lparr>books := Some [(''a'', [''7''])], lastAction := Some None, gameOver := Some False,
         anotherTurn := Some True\<rparr>\<rparr>"
  by (simp add: checkForBooks_def fishDrawn_eq group_fish entries_fish booksOf_def
      emptyCustomState_def bookStep_def setHand_def removeCards_def id_fish pushBook_def
      bookCount_def Let_def)

lemma fish_not_over:
  "\<not> GoFishRules_isGameOver fishCards
      ((checkForBooks fishCards fishDrawn 0)
         \<lparr>customState := (customState (checkForBooks fishCards fishDrawn 0))
            \<lparr>lastAction := Some (Some a)\<rparr>\<rparr>)"
  by (simp add: fish_books GoFishRules_isGameOver_def booksOf_def emptyCustomState_def)

lemma fish_apply:
  "GoFishRules_applyMove fishCards fishState1 0 askSevens = Inr (fishCards, fishState2)"
proof -
  have d: "deck fishState1 = [14, 15]" "player_name (players fishState1 ! 0) = ''Ann''"
    "player_name (players fishState1 ! Suc 0) = ''Bob''"
    "hand (players fishState1 ! Suc 0) = [Suc 0, 3, 5, 7, 9, 11, 13]"
    "getPlayerById fishState1 ''b'' = Some (Suc 0)"
    by (simp_all add: fishState1_def getPlayerById_def)
  have rk: "rankOf (fishCards ! Suc 0) = ''2''" using rank_fish(9) by simp
  have r: "recordAction fishCards
      ''Ann asked Bob for 7s and was told to Go Fish! Ann drew the 7 of Spades and gets another turn!''
      (checkForBooks fishCards fishDrawn 0) = fishState2"
    unfolding recordAction_def Let_def using fish_not_over
    by (simp add: fish_books fishState2_def emptyCustomState_def)
  have fd: "setAnotherTurn True
      (setHand 0 (addCards [14] (hand (players fishState1 ! 0))) (fishState1\<lparr>deck := [15]\<rparr>))
      = fishDrawn"
    by (simp add: fishDrawn_def)
  show ?thesis
    unfolding GoFishRules_applyMove_def askSevens_def
    by (simp add: getPlayerByValue_def d rk rank_fish id_fish draw_def Let_def fd r)
qed







section \<open>Go Fish: a drawn card of the requested rank\<close>

text \<open>
  C8 as stated fails when the drawn card completes a book: in the example game \<open>a\<close> holds
  three sevens, asks \<open>b\<close> (who has none) for sevens and draws the seven of spades;
  \<^verbatim>\<open>checkForBooks\<close> then removes the four sevens, so the drawn card is not in the hand of \<open>a\<close>
  after \<^verbatim>\<open>applyMove\<close>.
\<close>

theorem go_fish_draw_book_counterexample:
  "getPlayerById fishState1 ''b'' = Some 1
   \<and> filter (\<lambda>c. rankOf (fishCards ! c) = ''7'') (hand (players fishState1 ! 1)) = []
   \<and> deck fishState1 = [14, 15] \<and> rankOf (fishCards ! 14) = ''7''
   \<and> GoFishRules_applyMove fishCards fishState1 0 askSevens = Inr (fishCards, fishState2)
   \<and> 14 \<notin> set (hand (players fishState2 ! 0))
   \<and> anotherTurn (customState fishState2) = Some True"
proof -
  have a: "getPlayerById fishState1 ''b'' = Some 1" "deck fishState1 = [14, 15]"
    by (simp_all add: fishState1_def getPlayerById_def)
  have b: "filter (\<lambda>c. rankOf (fishCards ! c) = ''7'') (hand (players fishState1 ! 1)) = []"
    using rank_fish by (simp add: fishState1_def)
  have c: "14 \<notin> set (hand (players fishState2 ! 0))"
    "anotherTurn (customState fishState2) = Some True"
    by (simp_all add: fishState2_def)
  from a b c rank_fish(8) fish_apply show ?thesis by blast
qed

text \<open>
  C8, amended.  When the player whose turn it is asks a target for a rank the target does
  not hold, the deck is not empty and its first card has the requested rank, \<^verbatim>\<open>applyMove\<close>
  takes that card from the deck and adds it to the requester's hand, from which
  \<^verbatim>\<open>checkForBooks\<close> then removes every rank held exactly four times (so the drawn card stays
  in the hand unless it completes a book); \<^verbatim>\<open>anotherTurn\<close> is true afterwards and
  \<^verbatim>\<open>getNextPlayerId\<close> returns the requester's id.
\<close>

theorem go_fish_draw_match:
  assumes "pi < length (players s)"
    and "currentPlayerId s = player_id (players s ! pi)"
    and "getPlayerById s targetPlayerId = Some ti"
    and "filter (\<lambda>c. rankOf (h ! c) = rank) (hand (players s ! ti)) = []"
    and "deck s = d # drest"
    and "rankOf (h ! d) = rank"
  shows "\<exists>s'. GoFishRules_applyMove h s pi
                 (JObj [(''targetPlayerId'', JStr targetPlayerId), (''rank'', JStr rank)])
               = Inr (h, s')
       \<and> deck s' = drest
       \<and> hand (players s' ! pi)
           = filter (\<lambda>c. length (sameRank h (hand (players s ! pi) @ [d]) c) \<noteq> 4)
               (hand (players s ! pi) @ [d])
       \<and> anotherTurn (customState s') = Some True
       \<and> GoFishRules_getNextPlayerId s' = Inr (player_id (players s ! pi))
       \<and> player_id (players s' ! pi) = player_id (players s ! pi)"
proof -
  let ?s2 = "setAnotherTurn True
               (setHand pi (addCards [d] (hand (players (s\<lparr>deck := drest\<rparr>) ! pi)))
                  (s\<lparr>deck := drest\<rparr>))"
  let ?s3 = "checkForBooks h ?s2 pi"
  from assms(1) have l2: "pi < length (players ?s2)"
    by (simp add: setAnotherTurn_def setHand_def)
  from assms(1) have h2: "hand (players ?s2 ! pi) = hand (players s ! pi) @ [d]"
    by (simp add: setAnotherTurn_def setHand_def addCards_def)
  from assms(1) have i2: "player_id (players ?s2 ! pi) = player_id (players s ! pi)"
    by (simp add: setAnotherTurn_def setHand_def)
  from checkForBooks_frame[of h ?s2 pi] obtain b' where
    fr: "deck ?s3 = drest" "currentPlayerId ?s3 = currentPlayerId s"
      "customState ?s3 = (customState ?s2)\<lparr>books := Some b'\<rparr>"
      "player_id (players ?s3 ! pi) = player_id (players ?s2 ! pi)"
    by (auto simp: setAnotherTurn_def setHand_def)
  from fr(3) have at: "anotherTurn (customState ?s3) = Some True"
    by (simp add: setAnotherTurn_def)
  from checkForBooks_hand[OF l2] h2
  have hd3: "hand (players ?s3 ! pi)
      = filter (\<lambda>c. length (sameRank h (hand (players s ! pi) @ [d]) c) \<noteq> 4)
          (hand (players s ! pi) @ [d])"
    by simp
  have fin: "\<And>act s0. deck (recordAction h act s0) = deck s0
      \<and> players (recordAction h act s0) = players s0
      \<and> currentPlayerId (recordAction h act s0) = currentPlayerId s0
      \<and> anotherTurn (customState (recordAction h act s0)) = anotherTurn (customState s0)"
    by (simp add: recordAction_def Let_def)
  from assms(3-6) obtain act where
    ap: "GoFishRules_applyMove h s pi
           (JObj [(''targetPlayerId'', JStr targetPlayerId), (''rank'', JStr rank)])
         = Inr (h, recordAction h act ?s3)"
    by (simp add: GoFishRules_applyMove_def getPlayerByValue_def Let_def draw_def)
  from fr at hd3 i2 assms(2) fin[of act ?s3] show ?thesis
    unfolding ap by (simp add: GoFishRules_getNextPlayerId_def)
qed

theorem go_fish_draw_match_witness:
  "(\<exists>s'. GoFishRules_applyMove fishCards fishState1 0
            (JObj [(''targetPlayerId'', JStr ''b''), (''rank'', JStr ''7'')]) = Inr (fishCards, s')
        \<and> deck s' = [15] \<and> hand (players s' ! 0) = [6, 8, 10, 12]
        \<and> anotherTurn (customState s') = Some True
        \<and> GoFishRules_getNextPlayerId s' = Inr ''a'')
   \<and> (\<exists>s'. GoFishRules_applyMove fishCards
            (fishState1\<lparr>players := [\<lparr>player_id = ''a'', player_name = ''Ann'', hand = [0, 2, 6], score = 0\<rparr>,
                                    \<lparr>player_id = ''b'', player_name = ''Bob'', hand = [1, 3, 5], score = 0\<rparr>]\<rparr>)
            0 (JObj [(''targetPlayerId'', JStr ''b''), (''rank'', JStr ''7'')]) = Inr (fishCards, s')
        \<and> deck s' = [15] \<and> hand (players s' ! 0) = [0, 2, 6, 14]
        \<and> anotherTurn (customState s') = Some True
        \<and> GoFishRules_getNextPlayerId s' = Inr ''a'')"
proof -
  let ?t = "fishState1\<lparr>players := [\<lparr>player_id = ''a'', player_name = ''Ann'', hand = [0, 2, 6], score = 0\<rparr>,
                                    \<lparr>player_id = ''b'', player_name = ''Bob'', hand = [1, 3, 5], score = 0\<rparr>]\<rparr>"
  have rk: "rankOf (fishCards ! Suc 0) = ''2''" using rank_fish(9) by simp
  have a: "0 < length (players fishState1)" "currentPlayerId fishState1 = player_id (players fishState1 ! 0)"
    "getPlayerById fishState1 ''b'' = Some 1" "deck fishState1 = 14 # [15]"
    "hand (players fishState1 ! 0) = [0, 2, 4, 6, 8, 10, 12]"
    "player_id (players fishState1 ! 0) = ''a''"
    by (simp_all add: fishState1_def getPlayerById_def)
  have b: "filter (\<lambda>c. rankOf (fishCards ! c) = ''7'') (hand (players fishState1 ! 1)) = []"
    using rank_fish rk by (simp add: fishState1_def)
  have a': "0 < length (players ?t)" "currentPlayerId ?t = player_id (players ?t ! 0)"
    "getPlayerById ?t ''b'' = Some 1" "deck ?t = 14 # [15]"
    "hand (players ?t ! 0) = [0, 2, 6]" "player_id (players ?t ! 0) = ''a''"
    by (simp_all add: fishState1_def getPlayerById_def)
  have b': "filter (\<lambda>c. rankOf (fishCards ! c) = ''7'') (hand (players ?t ! 1)) = []"
    using rank_fish rk by simp
  from go_fish_draw_match[OF a(1,2,3) b a(4) rank_fish(8)] a(5,6)
  have 1: "\<exists>s'. GoFishRules_applyMove fishCards fishState1 0
            (JObj [(''targetPlayerId'', JStr ''b''), (''rank'', JStr ''7'')]) = Inr (fishCards, s')
        \<and> deck s' = [15] \<and> hand (players s' ! 0) = [6, 8, 10, 12]
        \<and> anotherTurn (customState s') = Some True
        \<and> GoFishRules_getNextPlayerId s' = Inr ''a''"
    by (simp add: sameRank_def rank_fish) blast
  from go_fish_draw_match[OF a'(1,2,3) b' a'(4) rank_fish(8)] a'(5,6)
  have 2: "\<exists>s'. GoFishRules_applyMove fishCards ?t 0
            (JObj [(''targetPlayerId'', JStr ''b''), (''rank'', JStr ''7'')]) = Inr (fishCards, s')
        \<and> deck s' = [15] \<and> hand (players s' ! 0) = [0, 2, 6, 14]
        \<and> anotherTurn (customState s') = Some True
        \<and> GoFishRules_getNextPlayerId s' = Inr ''a''"
    by (simp add: sameRank_def rank_fish) blast
  from 1 2 show ?thesis by blast
qed

section \<open>Card conservation\<close>




end
